theory Spec2Isabelle
  imports Main "HOL-Library.Word"
begin

section \<open>Session manager (class PTYManager)\<close>

text \<open>
  The output buffer is a Node \<open>Buffer\<close>: a sequence of bytes. The chunk handed to
  \<open>_appendToBuffer\<close> is a string; \<open>Buffer.from(data)\<close> (the runtime's UTF-8 encoder)
  turns it into bytes. The encoder belongs to the runtime, so it is a parameter
  \<open>enc\<close> of the model.
\<close>

type_synonym byte = "8 word"
type_synonym handle = nat

datatype pty_error = AlreadyRunning | NotRunning | SpawnFailure string

record PTYManager =
  pty :: "handle option"
  bufferSize :: nat
  buffer :: "byte list"
  exitCode :: "int option"
  running :: bool
  cols :: nat
  rows :: nat

record pty_options =
  opt_bufferSize :: "nat option"
  opt_cols :: "nat option"
  opt_rows :: "nat option"

text \<open>\<open>options.x || d\<close>: a missing or zero option falls back to the default.\<close>

definition or_default :: "nat option \<Rightarrow> nat \<Rightarrow> nat" where
  "or_default v d = (case v of None \<Rightarrow> d | Some n \<Rightarrow> if n = 0 then d else n)"

definition PTYManager_new :: "pty_options \<Rightarrow> PTYManager" where
  "PTYManager_new options =
     \<lparr> pty = None,
       bufferSize = or_default (opt_bufferSize options) (100 * 1024),
       buffer = [],
       exitCode = None,
       running = False,
       cols = or_default (opt_cols options) 120,
       rows = or_default (opt_rows options) 40 \<rparr>"

text \<open>Events emitted by the manager and calls made on the pseudo-terminal.\<close>

datatype pty_event =
    EvData string
  | EvExit int "string option"
  | EvSpawn string "string list"
  | EvError string
  | PtyWrite string
  | PtyResize nat nat
  | PtyKill string

record spawn_options =
  so_name :: string
  so_cols :: nat
  so_rows :: nat
  so_cwd :: string

text \<open>
  \<open>_appendToBuffer\<close>: concatenate, then keep the last \<open>bufferSize\<close> bytes when the
  result is longer than \<open>bufferSize\<close>.
\<close>

definition appendToBuffer :: "(string \<Rightarrow> byte list) \<Rightarrow> PTYManager \<Rightarrow> string \<Rightarrow> PTYManager" where
  "appendToBuffer enc m data =
     (let newData = enc data;
          combined = buffer m @ newData
      in if length combined > bufferSize m
         then m\<lparr>buffer := drop (length combined - bufferSize m) combined\<rparr>
         else m\<lparr>buffer := combined\<rparr>)"

text \<open>
  \<open>spawn\<close>. The call \<open>pty.spawn(command, args, spawnOptions)\<close> of node-pty is the
  parameter \<open>pty_spawn\<close>: it returns a handle or throws (\<open>Inl\<close> the message). The
  result is the value returned or the error thrown, the manager afterwards and the
  events emitted.
\<close>

definition spawn ::
  "(string \<Rightarrow> string list \<Rightarrow> spawn_options \<Rightarrow> string + handle) \<Rightarrow>
   PTYManager \<Rightarrow> string \<Rightarrow> string list \<Rightarrow> string option \<Rightarrow>
   (pty_error + bool) \<times> PTYManager \<times> pty_event list" where
  "spawn pty_spawn m command args cwd =
     (if running m then (Inl AlreadyRunning, m, [])
      else
        let spawnOptions =
              \<lparr> so_name = ''xterm-256color'', so_cols = cols m, so_rows = rows m,
                so_cwd = (case cwd of None \<Rightarrow> ''/workspace''
                          | Some d \<Rightarrow> if d = [] then ''/workspace'' else d) \<rparr>
        in case pty_spawn command args spawnOptions of
             Inl err \<Rightarrow> (Inl (SpawnFailure err), m, [EvError err])
           | Inr h \<Rightarrow>
               (Inr True,
                m\<lparr>pty := Some h, running := True, exitCode := None, buffer := []\<rparr>,
                [EvSpawn command args]))"

text \<open>The two callbacks registered on the pseudo-terminal by \<open>spawn\<close>.\<close>

definition onData :: "(string \<Rightarrow> byte list) \<Rightarrow> PTYManager \<Rightarrow> string \<Rightarrow> PTYManager \<times> pty_event list" where
  "onData enc m data = (appendToBuffer enc m data, [EvData data])"

definition onExit :: "PTYManager \<Rightarrow> int \<Rightarrow> string option \<Rightarrow> PTYManager \<times> pty_event list" where
  "onExit m code signal = (m\<lparr>running := False, exitCode := Some code\<rparr>, [EvExit code signal])"

text \<open>\<open>write\<close> (the name is an Isar keyword, hence the suffix).\<close>

definition write_pty :: "PTYManager \<Rightarrow> string \<Rightarrow> pty_error + pty_event list" where
  "write_pty m data =
     (if pty m = None \<or> \<not> running m then Inl NotRunning else Inr [PtyWrite data])"

definition resize :: "PTYManager \<Rightarrow> nat \<Rightarrow> nat \<Rightarrow> PTYManager \<times> pty_event list" where
  "resize m c r =
     (let m' = m\<lparr>cols := c, rows := r\<rparr>
      in if pty m' \<noteq> None \<and> running m' then (m', [PtyResize c r]) else (m', []))"

definition kill :: "PTYManager \<Rightarrow> string \<Rightarrow> PTYManager \<times> pty_event list" where
  "kill m signal =
     (if pty m \<noteq> None \<and> running m
      then (m\<lparr>running := False\<rparr>, [PtyKill signal])
      else (m, []))"

definition isRunning :: "PTYManager \<Rightarrow> bool" where
  "isRunning m = running m"

text \<open>
  The manager together with the subprocesses that exist. \<open>pty.spawn\<close> creates a
  subprocess, which exists until its exit is notified; \<open>pty.kill\<close> only sends it a
  signal. The exit callback registered by \<open>spawn\<close> writes to the manager whichever
  subprocess it was registered for.
\<close>

record pty_world =
  manager :: PTYManager
  alive :: "handle list"

definition world_spawn ::
  "(string \<Rightarrow> string list \<Rightarrow> spawn_options \<Rightarrow> string + handle) \<Rightarrow>
   pty_world \<Rightarrow> string \<Rightarrow> string list \<Rightarrow> string option \<Rightarrow>
   (pty_error + bool) \<times> pty_world \<times> pty_event list" where
  "world_spawn pty_spawn w command args cwd =
     (case spawn pty_spawn (manager w) command args cwd of
        (Inl e, m, evs) \<Rightarrow> (Inl e, w\<lparr>manager := m\<rparr>, evs)
      | (Inr ok, m, evs) \<Rightarrow>
          (Inr ok,
           w\<lparr>manager := m,
             alive := alive w @ (case pty m of None \<Rightarrow> [] | Some h \<Rightarrow> [h])\<rparr>,
           evs))"

definition world_kill :: "pty_world \<Rightarrow> string \<Rightarrow> pty_world \<times> pty_event list" where
  "world_kill w signal =
     (case kill (manager w) signal of (m, calls) \<Rightarrow> (w\<lparr>manager := m\<rparr>, calls))"

definition world_exit :: "pty_world \<Rightarrow> handle \<Rightarrow> int \<Rightarrow> string option \<Rightarrow> pty_world \<times> pty_event list" where
  "world_exit w h code signal =
     (if h \<in> set (alive w)
      then (case onExit (manager w) code signal of
              (m, evs) \<Rightarrow> (w\<lparr>manager := m, alive := remove1 h (alive w)\<rparr>, evs))
      else (w, []))"

text \<open>
  On ASCII text the UTF-8 encoding is one byte per character; this instance of the
  encoder is used where a concrete one is needed.
\<close>

definition ascii_enc :: "string \<Rightarrow> byte list" where
  "ascii_enc s = map of_char s"

text \<open>Draining: the data callback run over a sequence of chunks, oldest first.\<close>

fun drain :: "(string \<Rightarrow> byte list) \<Rightarrow> PTYManager \<Rightarrow> string list \<Rightarrow> PTYManager" where
  "drain enc m [] = m"
| "drain enc m (d # ds) = drain enc (fst (onData enc m d)) ds"

section \<open>Pattern library (option-parser.js)\<close>

text \<open>
  A JavaScript string is a sequence of UTF-16 code units. The model's \<open>string\<close> is a
  list of 8-bit characters, read as the code units 0 to 255; every character the
  patterns name is among them. In that range the white space of \<open>\s\<close> and of
  \<open>trim()\<close> is TAB, LF, VT, FF, CR, SPACE and NBSP, and the case-insensitive flag
  identifies only the ASCII letters a-z with A-Z.
\<close>

definition is_space :: "char \<Rightarrow> bool" where
  "is_space c = (c = CHR 0x09 \<or> c = CHR 0x0A \<or> c = CHR 0x0B \<or> c = CHR 0x0C \<or>
                 c = CHR 0x0D \<or> c = CHR 0x20 \<or> c = CHR 0xA0)"

definition is_digit :: "char \<Rightarrow> bool" where
  "is_digit c = (let n = of_char c :: nat in 48 \<le> n \<and> n \<le> 57)"

definition is_upper :: "char \<Rightarrow> bool" where
  "is_upper c = (let n = of_char c :: nat in 65 \<le> n \<and> n \<le> 90)"

definition is_lower :: "char \<Rightarrow> bool" where
  "is_lower c = (let n = of_char c :: nat in 97 \<le> n \<and> n \<le> 122)"

definition is_letter :: "char \<Rightarrow> bool" where
  "is_letter c = (is_upper c \<or> is_lower c)"

text \<open>
  \<open>toLowerCase\<close> and \<open>toUpperCase\<close> on the ASCII letters, the only characters the
  source applies them to (a character matched by \<open>[a-z]\<close> under the \<open>i\<close> flag).
\<close>

definition upper_letters :: string where
  "upper_letters = ''ABCDEFGHIJKLMNOPQRSTUVWXYZ''"

definition lower_letters :: string where
  "lower_letters = ''abcdefghijklmnopqrstuvwxyz''"

definition toLowerCase :: "char \<Rightarrow> char" where
  "toLowerCase c = (case map_of (zip upper_letters lower_letters) c of None \<Rightarrow> c | Some l \<Rightarrow> l)"

definition toUpperCase :: "char \<Rightarrow> char" where
  "toUpperCase c = (case map_of (zip lower_letters upper_letters) c of None \<Rightarrow> c | Some u \<Rightarrow> u)"

text \<open>\<open>s.trim()\<close>, \<open>s.split('\n')\<close>, \<open>a.join('\n')\<close> and \<open>a.slice(start)\<close>.\<close>

definition trim :: "string \<Rightarrow> string" where
  "trim s = rev (dropWhile is_space (rev (dropWhile is_space s)))"

fun split_nl :: "string \<Rightarrow> string list" where
  "split_nl [] = [[]]"
| "split_nl (c # cs) =
     (let r = split_nl cs
      in if c = CHR 0x0A then [] # r else (c # hd r) # tl r)"

fun join_nl :: "string list \<Rightarrow> string" where
  "join_nl [] = []"
| "join_nl [l] = l"
| "join_nl (l # ls) = l @ CHR 0x0A # join_nl ls"

definition slice_from :: "int \<Rightarrow> 'a list \<Rightarrow> 'a list" where
  "slice_from start xs =
     (let len = int (length xs);
          k = (if start < 0 then max (len + start) 0 else min start len)
      in drop (nat k) xs)"

text \<open>
  \<open>parseInt\<close> on a string of decimal digits. The source compares the result with
  1 and 20 and subtracts results between 1 and 20, where the floating-point value
  and the exact one agree.
\<close>

definition digit_val :: "char \<Rightarrow> nat" where
  "digit_val c = of_char c - 48"

definition parseInt :: "string \<Rightarrow> nat" where
  "parseInt s = foldl (\<lambda>n c. 10 * n + digit_val c) 0 s"

subsection \<open>The regular expressions\<close>

text \<open>
  \<open>found_at p s\<close>: the matcher \<open>p\<close>, which tries the expression at the start of its
  argument, succeeds at some position of \<open>s\<close>. \<open>leftmost f s\<close>: the result of the
  matcher at the first position where it succeeds, which is what
  \<open>String.prototype.match\<close> and \<open>RegExp.prototype.exec\<close> return.
\<close>

fun found_at :: "(string \<Rightarrow> bool) \<Rightarrow> string \<Rightarrow> bool" where
  "found_at p [] = p []"
| "found_at p (c # cs) = (p (c # cs) \<or> found_at p cs)"

fun leftmost :: "(string \<Rightarrow> 'a option) \<Rightarrow> string \<Rightarrow> 'a option" where
  "leftmost f [] = f []"
| "leftmost f (c # cs) = (case f (c # cs) of Some r \<Rightarrow> Some r | None \<Rightarrow> leftmost f cs)"

text \<open>A literal under the \<open>i\<close> flag, at the start of the text; the rest of the text.\<close>

fun lit_ci :: "string \<Rightarrow> string \<Rightarrow> string option" where
  "lit_ci [] s = Some s"
| "lit_ci (p # ps) [] = None"
| "lit_ci (p # ps) (c # cs) =
     (if toLowerCase p = toLowerCase c then lit_ci ps cs else None)"

definition contains_ci :: "string \<Rightarrow> string \<Rightarrow> bool" where
  "contains_ci pat s = found_at (\<lambda>t. lit_ci pat t \<noteq> None) s"

text \<open>\<open>/\(y\/n\)|\[y\/n\]|\[Y\/n\]|\[y\/N\]/i\<close>\<close>

definition re_yes_no :: "string \<Rightarrow> bool" where
  "re_yes_no s = (contains_ci ''(y/n)'' s \<or> contains_ci ''[y/n]'' s \<or>
                  contains_ci ''[Y/n]'' s \<or> contains_ci ''[y/N]'' s)"

text \<open>\<open>/\(y\/n\/a(?:lways)?\)/i\<close>\<close>

definition re_yes_no_always :: "string \<Rightarrow> bool" where
  "re_yes_no_always s = (contains_ci ''(y/n/a)'' s \<or> contains_ci ''(y/n/always)'' s)"

text \<open>
  \<open>/(\d+)\.\s+([A-Z])/\<close> at the start of the text, giving group 1. The digits and
  the white space are taken greedily; giving some back cannot help, since the
  character after the digits must be the dot and the one after the white space a
  capital letter.
\<close>

definition numbered_at :: "string \<Rightarrow> string option" where
  "numbered_at s =
     (let num = takeWhile is_digit s; r = dropWhile is_digit s
      in if num = [] then None
         else (case r of
                 [] \<Rightarrow> None
               | d # r1 \<Rightarrow>
                   if d \<noteq> CHR ''.'' \<or> takeWhile is_space r1 = [] then None
                   else (case dropWhile is_space r1 of
                           [] \<Rightarrow> None
                         | u # r3 \<Rightarrow> if is_upper u then Some num else None)))"

text \<open>\<open>/\d+\.\s+[A-Z]/\<close>\<close>

definition re_numbered :: "string \<Rightarrow> bool" where
  "re_numbered s = found_at (\<lambda>t. numbered_at t \<noteq> None) s"

text \<open>\<open>/press\s+enter|Enter to (?:confirm|select)/i\<close>\<close>

definition press_enter_at :: "string \<Rightarrow> bool" where
  "press_enter_at s =
     (case lit_ci ''press'' s of
        None \<Rightarrow> False
      | Some r \<Rightarrow> takeWhile is_space r \<noteq> [] \<and> lit_ci ''enter'' (dropWhile is_space r) \<noteq> None)"

definition re_press_enter :: "string \<Rightarrow> bool" where
  "re_press_enter s = (found_at press_enter_at s \<or> contains_ci ''Enter to confirm'' s \<or>
                       contains_ci ''Enter to select'' s)"

text \<open>
  \<open>/\(([a-z])\)([a-z]+)/gi\<close> at the start of the text: group 1, group 2 and the
  text after the match.
\<close>

definition letter_at :: "string \<Rightarrow> (char \<times> string \<times> string) option" where
  "letter_at s =
     (case s of
        a # l # b # r \<Rightarrow>
          if a = CHR ''('' \<and> is_letter l \<and> b = CHR '')'' \<and> takeWhile is_letter r \<noteq> []
          then Some (l, takeWhile is_letter r, dropWhile is_letter r)
          else None
      | _ \<Rightarrow> None)"

definition re_letter_in_parens :: "string \<Rightarrow> bool" where
  "re_letter_in_parens s = found_at (\<lambda>t. letter_at t \<noteq> None) s"

subsection \<open>The patterns\<close>

record choice =
  label :: string
  val :: string

record option_pattern =
  name :: string
  regex :: "string \<Rightarrow> bool"
  extractor :: "string \<Rightarrow> choice list option"
  priority :: nat

text \<open>
  The field \<open>extract\<close> of a pattern is named \<open>extractor\<close> here (\<open>extract\<close> is an
  Isar keyword). It takes the text; no extractor of the source reads the match.
\<close>

text \<open>The extractor of \<open>numbered-options\<close>. \<open>found\<close> is the Map, its keys in insertion order.\<close>

definition numbered_line :: "string list \<Rightarrow> string \<Rightarrow> string list" where
  "numbered_line found line =
     (case leftmost numbered_at line of
        None \<Rightarrow> found
      | Some num \<Rightarrow>
          if \<not> List.member found num \<and> parseInt num \<ge> 1 \<and> parseInt num \<le> 20
          then found @ [num] else found)"

definition numbered_found :: "string \<Rightarrow> string list" where
  "numbered_found text = foldl numbered_line [] (split_nl text)"

definition numbered_extract :: "string \<Rightarrow> choice list option" where
  "numbered_extract text =
     (let options = map (\<lambda>num. \<lparr>label = num, val = num\<rparr>)
                        (sort_key parseInt (numbered_found text))
      in if length options \<ge> 2 then Some options else None)"








text \<open>
  The extractor of \<open>letter-in-parens\<close>: the loop over \<open>pattern.exec(text)\<close>, each
  search starting where the last match ended.
\<close>

lemma letter_at_shorter: "letter_at s = Some (l, w, r) \<Longrightarrow> length r < length s"
proof -
  assume "letter_at s = Some (l, w, r)"
  then have "r = dropWhile is_letter (drop 3 s)" and "3 \<le> length s"
    by (auto simp: letter_at_def split: list.splits if_splits)
  moreover have "length (dropWhile is_letter (drop 3 s)) \<le> length (drop 3 s)"
    by (rule length_dropWhile_le)
  ultimately show ?thesis by simp
qed

function letter_matches :: "string \<Rightarrow> (char \<times> string) list" where
  "letter_matches s =
     (case s of
        [] \<Rightarrow> []
      | c # cs \<Rightarrow>
          (case letter_at s of
             Some (l, w, r) \<Rightarrow> (l, w) # letter_matches r
           | None \<Rightarrow> letter_matches cs))"
  by pat_completeness auto
termination
  by (relation "measure length") (auto dest: letter_at_shorter)

definition letter_extract :: "string \<Rightarrow> choice list option" where
  "letter_extract text =
     (let options = map (\<lambda>(l, rest).
                       let letter = toLowerCase l
                       in \<lparr>label = toUpperCase letter # rest, val = [letter]\<rparr>)
                     (letter_matches text)
      in if length options \<ge> 2 then Some options else None)"

definition OPTION_PATTERNS :: "option_pattern list" where
  "OPTION_PATTERNS =
     [ \<lparr> name = ''yes-no'', regex = re_yes_no,
         extractor = (\<lambda>text. Some [\<lparr>label = ''Yes'', val = ''y''\<rparr>, \<lparr>label = ''No'', val = ''n''\<rparr>]),
         priority = 10 \<rparr>,
       \<lparr> name = ''yes-no-always'', regex = re_yes_no_always,
         extractor = (\<lambda>text. Some [\<lparr>label = ''Yes'', val = ''y''\<rparr>, \<lparr>label = ''No'', val = ''n''\<rparr>,
                                 \<lparr>label = ''Always'', val = ''a''\<rparr>]),
         priority = 11 \<rparr>,
       \<lparr> name = ''numbered-options'', regex = re_numbered,
         extractor = numbered_extract, priority = 15 \<rparr>,
       \<lparr> name = ''press-enter'', regex = re_press_enter,
         extractor = (\<lambda>text. Some [\<lparr>label = ''OK'', val = []\<rparr>]),
         priority = 9 \<rparr>,
       \<lparr> name = ''letter-in-parens'', regex = re_letter_in_parens,
         extractor = letter_extract, priority = 8 \<rparr> ]"

text \<open>\<open>[...OPTION_PATTERNS].sort((a, b) => b.priority - a.priority)\<close>: stable, descending.\<close>

definition sortedPatterns :: "option_pattern list" where
  "sortedPatterns = sort_key (\<lambda>p. - int (priority p)) OPTION_PATTERNS"

record parse_result =
  prompt :: string
  options :: "choice list"
  patternName :: string

fun first_pattern :: "option_pattern list \<Rightarrow> string \<Rightarrow> parse_result option" where
  "first_pattern [] recentLines = None"
| "first_pattern (p # ps) recentLines =
     (if regex p recentLines
      then (case extractor p recentLines of
              None \<Rightarrow> first_pattern ps recentLines
            | Some opts \<Rightarrow>
                if length opts > 0
                then Some \<lparr>prompt = ''Select option:'', options = opts, patternName = name p\<rparr>
                else first_pattern ps recentLines)
      else first_pattern ps recentLines)"

definition parseOptions_in :: "option_pattern list \<Rightarrow> string \<Rightarrow> parse_result option" where
  "parseOptions_in patterns text =
     (if text = [] then None
      else let lines = split_nl (trim text);
               recentLines = join_nl (slice_from (- 50) lines)
           in first_pattern patterns recentLines)"

definition parseOptions :: "string \<Rightarrow> parse_result option" where
  "parseOptions text = parseOptions_in sortedPatterns text"

definition containsTrigger :: "string \<Rightarrow> bool" where
  "containsTrigger text = (parseOptions text \<noteq> None)"

section \<open>Trigger detector (class Watcher)\<close>

record Watcher =
  maxLines :: int
  lines :: "string list"
  lastTrigger :: "string option"
  lastTriggerTime :: int

definition Watcher_new :: "int option \<Rightarrow> Watcher" where
  "Watcher_new opt_maxLines =
     \<lparr> maxLines = (case opt_maxLines of None \<Rightarrow> 50 | Some n \<Rightarrow> if n = 0 then 50 else n),
       lines = [], lastTrigger = None, lastTriggerTime = 0 \<rparr>"

text \<open>
  \<open>stripAnsi\<close>: the input is cut to its last 100000 characters and handed to the
  strip-ansi package, which is the parameter \<open>stripAnsiModule\<close>.
\<close>

definition stripAnsi :: "(string \<Rightarrow> string) \<Rightarrow> string \<Rightarrow> string" where
  "stripAnsi stripAnsiModule text =
     stripAnsiModule (if length text > 100000 then slice_from (- 100000) text else text)"

text \<open>
  \<open>_hashPrompt\<close>. \<open>hash << 5\<close> and \<open>hash & hash\<close> work on 32-bit integers, so the
  running value is a 32-bit word; \<open>toString(16)\<close> writes its signed value in
  hexadecimal, with a minus sign when negative.
\<close>

definition hex_digit :: "nat \<Rightarrow> char" where
  "hex_digit d = ''0123456789abcdef'' ! d"

fun hex_nat :: "nat \<Rightarrow> string" where
  "hex_nat n = (if n < 16 then [hex_digit n] else hex_nat (n div 16) @ [hex_digit (n mod 16)])"

definition toString16 :: "int \<Rightarrow> string" where
  "toString16 i = (if i < 0 then CHR ''-'' # hex_nat (nat (- i)) else hex_nat (nat i))"

definition hash_step :: "32 word \<Rightarrow> char \<Rightarrow> 32 word" where
  "hash_step hash c = push_bit 5 hash - hash + of_char c"

definition hashPrompt :: "string \<Rightarrow> string" where
  "hashPrompt p = toString16 (sint (foldl hash_step 0 p))"

record trigger_event =
  ev_prompt :: string
  ev_options :: "choice list"
  ev_patternName :: string
  ev_isNew :: bool

text \<open>
  \<open>process\<close>: the value returned (\<open>None\<close> for \<open>null\<close>), the watcher afterwards and
  the calls of the \<open>onTrigger\<close> callback. \<open>now\<close> is the reading of \<open>Date.now()\<close>.
\<close>

definition push_lines :: "Watcher \<Rightarrow> string \<Rightarrow> string list" where
  "push_lines w stripped =
     (let pushed = lines w @ filter (\<lambda>line. length (trim line) > 0) (split_nl stripped)
      in if int (length pushed) > maxLines w then slice_from (- maxLines w) pushed else pushed)"

definition process ::
  "(string \<Rightarrow> string) \<Rightarrow> int \<Rightarrow> Watcher \<Rightarrow> string \<Rightarrow>
   trigger_event option \<times> Watcher \<times> parse_result list" where
  "process stripAnsiModule now w data =
     (let stripped = stripAnsi stripAnsiModule data;
          w1 = w\<lparr>lines := push_lines w stripped\<rparr>;
          windowText = join_nl (lines w1)
      in case parseOptions windowText of
           None \<Rightarrow> (None, w1, [])
         | Some result \<Rightarrow>
             let triggerHash = hashPrompt (prompt result)
             in if Some triggerHash \<noteq> lastTrigger w1
                then (Some \<lparr>ev_prompt = prompt result, ev_options = options result,
                             ev_patternName = patternName result, ev_isNew = True\<rparr>,
                      w1\<lparr>lastTrigger := Some triggerHash, lastTriggerTime := now\<rparr>,
                      [result])
                else (None, w1, []))"

definition reset :: "Watcher \<Rightarrow> Watcher" where
  "reset w = w\<lparr>lines := [], lastTrigger := None, lastTriggerTime := 0\<rparr>"

record last_trigger =
  lt_prompt :: string
  lt_options :: "choice list"
  lt_patternName :: string
  lt_detectedAt :: int

definition getLastTrigger :: "Watcher \<Rightarrow> last_trigger option" where
  "getLastTrigger w =
     (if lastTrigger w = None then None
      else case parseOptions (join_nl (lines w)) of
             None \<Rightarrow> None
           | Some result \<Rightarrow>
               Some \<lparr>lt_prompt = prompt result, lt_options = options result,
                     lt_patternName = patternName result, lt_detectedAt = lastTriggerTime w\<rparr>)"

text \<open>
  A run of the detector over a sequence of chunks, each with the clock reading at
  its arrival: the value returned for each chunk, in order, and the watcher at
  the end.
\<close>

fun feed ::
  "(string \<Rightarrow> string) \<Rightarrow> Watcher \<Rightarrow> (int \<times> string) list \<Rightarrow> trigger_event option list \<times> Watcher" where
  "feed strip w [] = ([], w)"
| "feed strip w ((now, d) # ds) =
     (case process strip now w d of
        (r, w1, cb) \<Rightarrow> (case feed strip w1 ds of (rs, w2) \<Rightarrow> (r # rs, w2)))"

section \<open>Notification dispatch (class Notifier)\<close>

text \<open>
  The topic, the debounce window and the debounce memory of a notifier. Its
  counters of sent, debounced and failed notifications are left out.
\<close>

record Notifier =
  topic :: "string option"
  debounceSeconds :: int
  lastNotificationHash :: "string option"
  lastNotificationTime :: int

definition Notifier_new :: "string option \<Rightarrow> int option \<Rightarrow> Notifier" where
  "Notifier_new opt_topic opt_debounce =
     \<lparr> topic = opt_topic,
       debounceSeconds = (case opt_debounce of None \<Rightarrow> 30 | Some d \<Rightarrow> if d = 0 then 30 else d),
       lastNotificationHash = None, lastNotificationTime = 0 \<rparr>"

text \<open>\<open>_hashString\<close>, the same computation as \<open>_hashPrompt\<close> of the watcher.\<close>

definition hashString :: "string \<Rightarrow> string" where
  "hashString str = toString16 (sint (foldl hash_step 0 str))"

text \<open>
  \<open>notify\<close> is asynchronous. \<open>notify_begin\<close> is its part up to the request: no
  topic, debounced (same hash as the last notification sent, less than the
  debounce window ago; the source compares milliseconds divided by 1000 with the
  seconds), or the request to send. \<open>notify_end\<close> is its part after the answer:
  only a successful request is remembered.
\<close>

datatype notify_step = NoTopic | Debounced | Fetch string int

datatype fetch_result = ResponseOk | HttpError | NetworkError

definition notify_begin :: "Notifier \<Rightarrow> string \<Rightarrow> bool \<Rightarrow> int \<Rightarrow> notify_step" where
  "notify_begin n p force now =
     (if topic n = None \<or> topic n = Some [] then NoTopic
      else
        let promptHash = hashString p
        in if \<not> force \<and> Some promptHash = lastNotificationHash n \<and>
              now - lastNotificationTime n < debounceSeconds n * 1000
           then Debounced
           else Fetch promptHash now)"

definition notify_end :: "Notifier \<Rightarrow> notify_step \<Rightarrow> fetch_result \<Rightarrow> Notifier" where
  "notify_end n step response =
     (case step of
        Fetch promptHash now \<Rightarrow>
          (case response of
             ResponseOk \<Rightarrow> n\<lparr>lastNotificationHash := Some promptHash, lastNotificationTime := now\<rparr>
           | _ \<Rightarrow> n)
      | _ \<Rightarrow> n)"

definition resetDebounce :: "Notifier \<Rightarrow> Notifier" where
  "resetDebounce n = n\<lparr>lastNotificationHash := None, lastNotificationTime := 0\<rparr>"

section \<open>Broadcast and access layer (server.js)\<close>

definition MAX_VIOLATIONS :: nat where "MAX_VIOLATIONS = 5"
definition BAN_DURATION :: int where "BAN_DURATION = 5 * 60 * 1000"
definition WS_RATE_LIMIT :: nat where "WS_RATE_LIMIT = 10"
definition WS_WINDOW :: int where "WS_WINDOW = 60 * 1000"
definition MESSAGE_RATE_LIMIT :: nat where "MESSAGE_RATE_LIMIT = 30"
definition MESSAGE_WINDOW :: int where "MESSAGE_WINDOW = 1000"

text \<open>
  A connection: the fields the server puts on the socket object, its source
  address, and whether its \<open>readyState\<close> is OPEN (\<open>ws.close\<close> leaves OPEN at once).
\<close>

record client =
  cl_ip :: string
  violations :: nat
  messageTimestamps :: "int list"
  cl_open :: bool

record pty_state =
  st_running :: bool
  st_exitCode :: "int option"
  st_bufferLength :: nat
  st_cols :: nat
  st_rows :: nat

definition getState :: "PTYManager \<Rightarrow> pty_state" where
  "getState m = \<lparr> st_running = running m, st_exitCode = exitCode m,
                  st_bufferLength = length (buffer m), st_cols = cols m, st_rows = rows m \<rparr>"

datatype server_msg =
    MsgState pty_state "byte list" "last_trigger option"
  | MsgOutput string
  | MsgOptions trigger_event
  | MsgHideOptions
  | MsgStarted "string list" "string option"
  | MsgExit int "string option"
  | MsgError string

text \<open>What a handler does to the outside, in order.\<close>

datatype action =
    Broadcast server_msg "nat list"
  | Send nat server_msg
  | Close nat nat string
  | Pty pty_event
  | OnTrigger parse_result
  | StartMock
  | MockInput string
  | LogInvalid

record server =
  ptyManager :: PTYManager
  watcher :: Watcher
  notifier :: Notifier
  bannedIps :: "string \<rightharpoonup> int"
  wsConnections :: "string \<rightharpoonup> int list"
  clients :: "(nat \<times> client) list"
  themeSent :: bool
  mockInputHandler :: bool

record config =
  mockMode :: bool
  claude_command :: string

text \<open>\<open>broadcast\<close>: the message goes to every client whose \<open>readyState\<close> is OPEN.\<close>

definition broadcast :: "server \<Rightarrow> server_msg \<Rightarrow> action" where
  "broadcast s msg = Broadcast msg (map fst (filter (\<lambda>(cid, c). cl_open c) (clients s)))"

definition state_msg :: "server \<Rightarrow> server_msg" where
  "state_msg s = MsgState (getState (ptyManager s)) (buffer (ptyManager s))
                          (getLastTrigger (watcher s))"

text \<open>
  \<open>broadcastOutput\<close>: the chunk goes through the watcher, the raw output is
  broadcast, then the options if the watcher returned some. \<open>strip\<close> is the
  strip-ansi package and \<open>now\<close> the clock reading inside \<open>process\<close>.
\<close>

definition broadcastOutput ::
  "(string \<Rightarrow> string) \<Rightarrow> int \<Rightarrow> server \<Rightarrow> string \<Rightarrow> server \<times> action list" where
  "broadcastOutput strip now s data =
     (case process strip now (watcher s) data of
        (triggerResult, w1, cb) \<Rightarrow>
          (let s1 = s\<lparr>watcher := w1\<rparr>
           in (s1, map OnTrigger cb @ [broadcast s1 (MsgOutput data)] @
                   (case triggerResult of None \<Rightarrow> [] | Some t \<Rightarrow> [broadcast s1 (MsgOptions t)]))))"

definition error_message :: "pty_error \<Rightarrow> string" where
  "error_message e =
     (case e of AlreadyRunning \<Rightarrow> ''PTY already running. Call kill() first.''
      | NotRunning \<Rightarrow> ''PTY not running''
      | SpawnFailure m \<Rightarrow> m)"

text \<open>The listeners the server registers on the manager's events.\<close>

definition forward_event :: "server \<Rightarrow> pty_event \<Rightarrow> action list" where
  "forward_event s e =
     (case e of EvError m \<Rightarrow> [broadcast s (MsgError m)] | _ \<Rightarrow> [])"

text \<open>
  \<open>startClaude\<close>. The argument list after validation and the working directory
  (\<open>Inl\<close> the message when creating it failed) are computed from the request by
  \<open>validateArgs\<close>, \<open>path\<close> and \<open>fs\<close>; they are the parameters \<open>args\<close> and \<open>dir\<close>.
\<close>

definition startClaude ::
  "config \<Rightarrow> (string \<Rightarrow> string list \<Rightarrow> spawn_options \<Rightarrow> string + handle) \<Rightarrow>
   server \<Rightarrow> string list \<Rightarrow> string + string \<Rightarrow> server \<times> action list" where
  "startClaude cfg pty_spawn s args dir =
     (if isRunning (ptyManager s)
      then (s, [broadcast s (MsgError ''Claude Code is already running'')])
      else
        let s1 = s\<lparr>watcher := reset (watcher s)\<rparr>
        in case dir of
             Inl err \<Rightarrow> (s1, [broadcast s1 (MsgError (''Failed to create directory: '' @ err))])
           | Inr cwd \<Rightarrow>
               if mockMode cfg
               then (s1, [broadcast s1 (MsgStarted [''--mock''] None), StartMock])
               else (case spawn pty_spawn (ptyManager s1) (claude_command cfg) args (Some cwd) of
                       (Inr ok, m, evs) \<Rightarrow>
                         (let s2 = s1\<lparr>ptyManager := m\<rparr>
                          in (s2, concat (map (forward_event s2) evs) @
                                  [broadcast s2 (MsgStarted args (Some cwd))]))
                     | (Inl e, m, evs) \<Rightarrow>
                         (let s2 = s1\<lparr>ptyManager := m\<rparr>
                          in (s2, concat (map (forward_event s2) evs) @
                                  [broadcast s2 (MsgError (''Failed to start: '' @ error_message e))]))))"

text \<open>Messages of a client, after \<open>JSON.parse\<close>. The data of an input is a string.\<close>

datatype client_msg =
    Start "string list" "string + string"
  | Input string
  | Resize nat nat
  | Stop
  | GetState
  | Unknown

definition originalHandleClientMessage ::
  "config \<Rightarrow> (string \<Rightarrow> string list \<Rightarrow> spawn_options \<Rightarrow> string + handle) \<Rightarrow>
   server \<Rightarrow> nat \<Rightarrow> client_msg \<Rightarrow> server \<times> action list" where
  "originalHandleClientMessage cfg pty_spawn s cid msg =
     (case msg of
        Start args dir \<Rightarrow> startClaude cfg pty_spawn s args dir
      | Input d \<Rightarrow>
          if isRunning (ptyManager s)
          then (case write_pty (ptyManager s) d of
                  Inl e \<Rightarrow> (s, [LogInvalid])
                | Inr calls \<Rightarrow>
                    (let s1 = (if CHR 0x0D \<in> set d then s\<lparr>watcher := reset (watcher s)\<rparr> else s);
                         hide = (if CHR 0x0D \<in> set d then [broadcast s1 MsgHideOptions] else [])
                     in (s1\<lparr>notifier := resetDebounce (notifier s1)\<rparr>, map Pty calls @ hide)))
          else (s, [])
      | Resize c r \<Rightarrow>
          if c \<noteq> 0 \<and> r \<noteq> 0
          then (case resize (ptyManager s) c r of
                  (m, calls) \<Rightarrow> (s\<lparr>ptyManager := m\<rparr>, map Pty calls))
          else (s, [])
      | Stop \<Rightarrow>
          (case kill (ptyManager s) ''SIGTERM'' of
             (m, calls) \<Rightarrow> (s\<lparr>ptyManager := m\<rparr>, map Pty calls))
      | GetState \<Rightarrow> (s, [Send cid (state_msg s)])
      | Unknown \<Rightarrow> (s, []))"

text \<open>
  \<open>handleClientMessage\<close> as the server leaves it: in mock mode an input that the
  scripted sequence waits for goes to the script and is echoed as output.
\<close>

definition handleClientMessage ::
  "config \<Rightarrow> (string \<Rightarrow> string list \<Rightarrow> spawn_options \<Rightarrow> string + handle) \<Rightarrow>
   (string \<Rightarrow> string) \<Rightarrow> int \<Rightarrow> server \<Rightarrow> nat \<Rightarrow> client_msg \<Rightarrow> server \<times> action list" where
  "handleClientMessage cfg pty_spawn strip now s cid msg =
     (case msg of
        Input d \<Rightarrow>
          if mockMode cfg \<and> mockInputHandler s
          then (case broadcastOutput strip now (s\<lparr>mockInputHandler := False\<rparr>) d of
                  (s1, acts) \<Rightarrow> (s1, MockInput d # acts))
          else originalHandleClientMessage cfg pty_spawn s cid msg
      | _ \<Rightarrow> originalHandleClientMessage cfg pty_spawn s cid msg)"

text \<open>
  The handler of \<open>wss.on('connection')\<close>. \<open>valid\<close> is the answer of
  \<open>validateSession\<close>; \<open>t0\<close> and \<open>now\<close> are the two readings of the clock, at the ban
  check and at the rate limit.
\<close>

definition on_connection ::
  "server \<Rightarrow> nat \<Rightarrow> string \<Rightarrow> bool \<Rightarrow> int \<Rightarrow> int \<Rightarrow> server \<times> action list" where
  "on_connection s cid ip valid t0 now =
     (if (case bannedIps s ip of None \<Rightarrow> False | Some expiry \<Rightarrow> t0 < expiry)
      then (s, [Close cid 4403 ''Temporarily banned''])
      else if \<not> valid then (s, [Close cid 4001 ''Unauthorized''])
      else
        let connections = filter (\<lambda>t. now - t < WS_WINDOW)
                                 (case wsConnections s ip of None \<Rightarrow> [] | Some ts \<Rightarrow> ts)
        in if length connections \<ge> WS_RATE_LIMIT
           then (s, [Close cid 4029 ''Rate limited''])
           else
             let s1 = s\<lparr> wsConnections := (wsConnections s)(ip \<mapsto> connections @ [now]),
                        clients := clients s @
                          [(cid, \<lparr>cl_ip = ip, violations = 0, messageTimestamps = [],
                                  cl_open = True\<rparr>)] \<rparr>
             in (s1, [Send cid (state_msg s1)]))"

text \<open>
  The handler of \<open>ws.on('message')\<close> of the connection \<open>cid\<close>; the fields it
  reads and writes on the socket object are those recorded for \<open>cid\<close> in
  \<open>clients\<close> (the handler exists from the admission of the connection to its
  \<open>close\<close> event). \<open>sz\<close> is the size of the message, \<open>parsed\<close> what \<open>JSON.parse\<close>
  gives (\<open>None\<close> when it throws); \<open>now\<close> and \<open>t1\<close> are the clock readings at the
  rate limit and at the ban.
\<close>

definition set_client :: "server \<Rightarrow> nat \<Rightarrow> client \<Rightarrow> server" where
  "set_client s cid c = s\<lparr>clients := map (\<lambda>(i, x). if i = cid then (i, c) else (i, x)) (clients s)\<rparr>"

definition on_message ::
  "config \<Rightarrow> (string \<Rightarrow> string list \<Rightarrow> spawn_options \<Rightarrow> string + handle) \<Rightarrow>
   (string \<Rightarrow> string) \<Rightarrow> server \<Rightarrow> nat \<Rightarrow> nat \<Rightarrow> client_msg option \<Rightarrow>
   int \<Rightarrow> int \<Rightarrow> server \<times> action list" where
  "on_message cfg pty_spawn strip s cid sz parsed now t1 =
     (case map_of (clients s) cid of
        None \<Rightarrow> (s, [])
      | Some c \<Rightarrow>
          if sz > 65536
          then (set_client s cid (c\<lparr>cl_open := False\<rparr>), [Close cid 1009 ''Message too large''])
          else
            let c1 = c\<lparr>messageTimestamps :=
                        filter (\<lambda>t. now - t < MESSAGE_WINDOW) (messageTimestamps c)\<rparr>
            in if length (messageTimestamps c1) \<ge> MESSAGE_RATE_LIMIT
               then
                 let c2 = c1\<lparr>violations := violations c1 + 1\<rparr>
                 in if violations c2 \<ge> MAX_VIOLATIONS
                    then ((set_client s cid (c2\<lparr>cl_open := False\<rparr>))
                            \<lparr>bannedIps := (bannedIps s)(cl_ip c \<mapsto> t1 + BAN_DURATION)\<rparr>,
                          [Close cid 4429 ''Rate limit exceeded - temporarily banned''])
                    else (set_client s cid c2, [])
               else
                 let c3 = c1\<lparr>messageTimestamps := messageTimestamps c1 @ [now]\<rparr>;
                     s1 = set_client s cid c3
                 in case parsed of
                      None \<Rightarrow> (s1, [LogInvalid])
                    | Some msg \<Rightarrow> handleClientMessage cfg pty_spawn strip now s1 cid msg)"

text \<open>
  The messages of one connection, in order of arrival: each with its size, its
  parse and the two clock readings.
\<close>

fun on_messages ::
  "config \<Rightarrow> (string \<Rightarrow> string list \<Rightarrow> spawn_options \<Rightarrow> string + handle) \<Rightarrow>
   (string \<Rightarrow> string) \<Rightarrow> server \<Rightarrow> nat \<Rightarrow> (nat \<times> client_msg option \<times> int \<times> int) list \<Rightarrow>
   server \<times> action list" where
  "on_messages cfg pty_spawn strip s cid [] = (s, [])"
| "on_messages cfg pty_spawn strip s cid ((sz, parsed, now, t1) # ms) =
     (case on_message cfg pty_spawn strip s cid sz parsed now t1 of
        (s1, acts1) \<Rightarrow>
          (case on_messages cfg pty_spawn strip s1 cid ms of
             (s2, acts2) \<Rightarrow> (s2, acts1 @ acts2)))"

text \<open>The handler of \<open>ws.on('close')\<close>.\<close>

definition on_close :: "server \<Rightarrow> nat \<Rightarrow> server" where
  "on_close s cid = s\<lparr>clients := filter (\<lambda>(i, x). i \<noteq> cid) (clients s)\<rparr>"

text \<open>
  The listeners on the manager's \<open>data\<close> and \<open>exit\<close> events. On the first chunk
  that shows the theme menu the \<open>data\<close> listener writes \<open>1\<close> to the subprocess; the
  carriage return it sends 100 ms later by a timer is left out.
\<close>

definition on_pty_data ::
  "(string \<Rightarrow> string) \<Rightarrow> int \<Rightarrow> server \<Rightarrow> string \<Rightarrow> bool \<Rightarrow> server \<times> action list" where
  "on_pty_data strip now s data menu_ready =
     (case broadcastOutput strip now s data of
        (s1, acts) \<Rightarrow>
          if \<not> themeSent s1 \<and> menu_ready
          then (case write_pty (ptyManager s1) ''1'' of
                  Inl e \<Rightarrow> (s1\<lparr>themeSent := True\<rparr>, acts)
                | Inr calls \<Rightarrow> (s1\<lparr>themeSent := True\<rparr>, acts @ map Pty calls))
          else (s1, acts))"

definition on_pty_exit :: "server \<Rightarrow> int \<Rightarrow> string option \<Rightarrow> server \<times> action list" where
  "on_pty_exit s code signal =
     (let s1 = s\<lparr>themeSent := False\<rparr> in (s1, [broadcast s1 (MsgExit code signal)]))"

text \<open>
  The subprocess ending: the manager's own callback runs first and emits \<open>exit\<close>,
  which the server's listener receives.
\<close>

definition subprocess_exit :: "server \<Rightarrow> int \<Rightarrow> string option \<Rightarrow> server \<times> action list" where
  "subprocess_exit s code signal =
     (case onExit (ptyManager s) code signal of
        (m, evs) \<Rightarrow> on_pty_exit (s\<lparr>ptyManager := m\<rparr>) code signal)"

text \<open>
  Output of the subprocess: the manager's callback appends to the buffer and emits
  \<open>data\<close>, which the server's listener receives. \<open>menu_ready\<close> stands for
  \<open>data.includes\<close> of the dashed rule, a character outside the range of the model.
\<close>

definition subprocess_data ::
  "(string \<Rightarrow> byte list) \<Rightarrow> (string \<Rightarrow> string) \<Rightarrow> int \<Rightarrow> server \<Rightarrow> string \<Rightarrow> bool \<Rightarrow>
   server \<times> action list" where
  "subprocess_data enc strip now s data menu_ready =
     (case onData enc (ptyManager s) data of
        (m, evs) \<Rightarrow> on_pty_data strip now (s\<lparr>ptyManager := m\<rparr>) data menu_ready)"

text \<open>
  The server as the module leaves it when loaded, with a notification topic
  configured.
\<close>

definition server_init :: server where
  "server_init =
     \<lparr> ptyManager = PTYManager_new \<lparr>opt_bufferSize = None, opt_cols = Some 120, opt_rows = Some 40\<rparr>,
       watcher = Watcher_new None,
       notifier = Notifier_new (Some ''claude-alerts'') None,
       bannedIps = Map.empty,
       wsConnections = Map.empty,
       clients = [],
       themeSent = False,
       mockInputHandler = False \<rparr>"

definition config_default :: config where
  "config_default = \<lparr> mockMode = False, claude_command = ''claude'' \<rparr>"

text \<open>
  The notification the \<open>onTrigger\<close> callback asks for, from the request to the
  answer of the notification service.
\<close>

definition trigger_notified :: "server \<Rightarrow> parse_result \<Rightarrow> int \<Rightarrow> fetch_result \<Rightarrow> server" where
  "trigger_notified s result now response =
     s\<lparr>notifier := notify_end (notifier s) (notify_begin (notifier s) (prompt result) False now) response\<rparr>"

section \<open>The output buffer\<close>

lemma appendToBuffer_buffer:
  "buffer (appendToBuffer enc m d) =
     drop (length (buffer m @ enc d) - bufferSize m) (buffer m @ enc d)"
  by (simp add: appendToBuffer_def Let_def)

lemma appendToBuffer_bufferSize [simp]:
  "bufferSize (appendToBuffer enc m d) = bufferSize m"
  by (simp add: appendToBuffer_def Let_def)

lemma length_drop_suffix: "length (drop (length xs - n) xs) \<le> n"
  by simp

lemma drop_suffix_append:
  "drop (length (drop (length b - n) b @ d) - n) (drop (length b - n) b @ d) =
   drop (length (b @ d) - n) (b @ d)"
proof -
  define k where "k = length b - n"
  have k: "k \<le> length b" by (simp add: k_def)
  then have eq: "drop k b @ d = drop k (b @ d)" by simp
  have "drop (length (drop k (b @ d)) - n) (drop k (b @ d)) =
        drop (length (drop k (b @ d)) - n + k) (b @ d)"
    by (simp only: drop_drop)
  also have "length (drop k (b @ d)) - n + k = length (b @ d) - n"
    using k by (simp add: k_def)
  finally show ?thesis unfolding k_def [symmetric] eq .
qed

lemma drain_bufferSize [simp]: "bufferSize (drain enc m ds) = bufferSize m"
  by (induction ds arbitrary: m) (simp_all add: onData_def)

lemma drain_buffer_general:
  "buffer (drain enc m ds) =
     drop (length (buffer m @ concat (map enc ds)) - bufferSize m)
          (buffer m @ concat (map enc ds)) \<or> length (buffer m) > bufferSize m"
proof (induction ds arbitrary: m)
  case Nil
  then show ?case by (cases "length (buffer m) \<le> bufferSize m") simp_all
next
  case (Cons d ds)
  let ?m' = "appendToBuffer enc m d"
  have le: "length (buffer ?m') \<le> bufferSize ?m'"
    unfolding appendToBuffer_buffer appendToBuffer_bufferSize by (rule length_drop_suffix)
  from Cons.IH [of ?m'] le
  have "buffer (drain enc ?m' ds) =
          drop (length (buffer ?m' @ concat (map enc ds)) - bufferSize m)
               (buffer ?m' @ concat (map enc ds))"
    by simp
  also have "\<dots> = drop (length ((buffer m @ enc d) @ concat (map enc ds)) - bufferSize m)
                      ((buffer m @ enc d) @ concat (map enc ds))"
    unfolding appendToBuffer_buffer by (rule drop_suffix_append)
  finally show ?case by (simp add: onData_def)
qed

text \<open>
  C1. After a start (empty buffer), for every sequence of chunks drained into the
  buffer: the buffer is the whole concatenation of the encoded chunks when that
  concatenation fits the capacity, it is the last \<open>bufferSize\<close> bytes of the
  concatenation otherwise, and its length never exceeds the capacity.
\<close>

theorem C1_buffer_is_bounded_suffix:
  "buffer (drain enc (m\<lparr>buffer := []\<rparr>) chunks) =
     (let c = concat (map enc chunks)
      in if length c \<le> bufferSize m then c else drop (length c - bufferSize m) c)
   \<and> length (buffer (drain enc (m\<lparr>buffer := []\<rparr>) chunks)) \<le> bufferSize m
   \<and> (length (concat (map enc chunks)) > bufferSize m \<longrightarrow>
        length (buffer (drain enc (m\<lparr>buffer := []\<rparr>) chunks)) = bufferSize m)"
proof -
  have "buffer (drain enc (m\<lparr>buffer := []\<rparr>) chunks) =
          drop (length (concat (map enc chunks)) - bufferSize m) (concat (map enc chunks))"
    using drain_buffer_general [of enc "m\<lparr>buffer := []\<rparr>" chunks] by simp
  then show ?thesis by (auto simp: Let_def)
qed

theorem C1_buffer_is_bounded_suffix_witness:
  "buffer (drain ascii_enc
             (PTYManager_new \<lparr>opt_bufferSize = Some 4, opt_cols = None, opt_rows = None\<rparr>)
             [''abc'', ''de'']) = ascii_enc ''bcde''
   \<and> length (concat (map ascii_enc [''abc'', ''de''])) > 4"
  using C1_buffer_is_bounded_suffix
    [of ascii_enc "PTYManager_new \<lparr>opt_bufferSize = Some 4, opt_cols = None, opt_rows = None\<rparr>"
        "[''abc'', ''de'']"]
  by (simp add: PTYManager_new_def or_default_def ascii_enc_def)

section \<open>The prompt of every result\<close>

lemma first_pattern_prompt:
  "first_pattern ps t = Some r \<Longrightarrow> prompt r = ''Select option:''"
  by (induction ps) (auto split: if_splits option.splits)

lemma parseOptions_in_prompt:
  "parseOptions_in ps t = Some r \<Longrightarrow> prompt r = ''Select option:''"
  by (auto simp: parseOptions_in_def Let_def dest: first_pattern_prompt split: if_splits)

lemma parseOptions_prompt:
  "parseOptions t = Some r \<Longrightarrow> prompt r = ''Select option:''"
  unfolding parseOptions_def by (rule parseOptions_in_prompt)

lemma process_Some:
  assumes "process strip now w d = (Some ev, w1, cb)"
  shows "ev_prompt ev = ''Select option:''"
    and "lastTrigger w1 = Some (hashPrompt ''Select option:'')"
    and "lastTrigger w \<noteq> Some (hashPrompt ''Select option:'')"
    and "\<exists>r. cb = [r] \<and> prompt r = ''Select option:''"
    and "lines w1 = push_lines w (stripAnsi strip d)"
    and "maxLines w1 = maxLines w"
  using assms
  by (auto simp: process_def Let_def split: option.splits if_splits dest: parseOptions_prompt)

lemma process_held:
  assumes "lastTrigger w = Some (hashPrompt ''Select option:'')"
  shows "process strip now w d = (None, w\<lparr>lines := push_lines w (stripAnsi strip d)\<rparr>, [])"
  using assms
  by (auto simp: process_def Let_def split: option.splits if_splits dest: parseOptions_prompt)

lemma process_idle:
  assumes "lastTrigger w = None"
    and "parseOptions (join_nl (push_lines w (stripAnsi strip d))) = Some r"
  shows "process strip now w d =
           (Some \<lparr>ev_prompt = ''Select option:'', ev_options = options r,
                   ev_patternName = patternName r, ev_isNew = True\<rparr>,
            w\<lparr>lines := push_lines w (stripAnsi strip d),
              lastTrigger := Some (hashPrompt ''Select option:''), lastTriggerTime := now\<rparr>,
            [r])"
  using assms parseOptions_prompt [OF assms(2)]
  by (simp add: process_def Let_def)

lemma getLastTrigger_prompt:
  "getLastTrigger w = Some t \<Longrightarrow> lt_prompt t = ''Select option:''"
  by (auto simp: getLastTrigger_def split: if_splits option.splits dest: parseOptions_prompt)

lemma parse_yes_no:
  "parseOptions ''Proceed? (y/n)'' =
     Some \<lparr>prompt = ''Select option:'',
           options = [\<lparr>label = ''Yes'', val = ''y''\<rparr>, \<lparr>label = ''No'', val = ''n''\<rparr>],
           patternName = ''yes-no''\<rparr>"
  by code_simp

text \<open>
  C10. Whenever \<open>parseOptions\<close> returns a result, whatever the text and whichever
  the patterns registered, the prompt of the result is the string
  \<open>Select option:\<close>; so is the prompt of every event \<open>process\<close> returns, of every
  result it hands to the notification callback and of every trigger reported in a
  state snapshot.
\<close>

theorem C10_prompt_is_constant:
  "(parseOptions inp = Some r \<longrightarrow> prompt r = ''Select option:'')
   \<and> (parseOptions_in patterns inp = Some r \<longrightarrow> prompt r = ''Select option:'')
   \<and> (process strip now w data = (Some ev, w1, cb) \<longrightarrow>
        ev_prompt ev = ''Select option:'' \<and> (\<exists>res. cb = [res] \<and> prompt res = ''Select option:''))
   \<and> (getLastTrigger w = Some t \<longrightarrow> lt_prompt t = ''Select option:'')"
  using parseOptions_prompt [of inp r] parseOptions_in_prompt [of patterns inp r]
    process_Some [of strip now w data ev w1 cb] getLastTrigger_prompt [of w t]
  by blast

theorem C10_prompt_is_constant_witness:
  "\<exists>r. parseOptions ''Proceed? (y/n)'' = Some r \<and> prompt r = ''Select option:''
       \<and> patternName r = ''yes-no''"
proof -
  let ?r = "\<lparr>prompt = ''Select option:'',
             options = [\<lparr>label = ''Yes'', val = ''y''\<rparr>, \<lparr>label = ''No'', val = ''n''\<rparr>],
             patternName = ''yes-no''\<rparr>"
  have "parseOptions ''Proceed? (y/n)'' = Some ?r \<longrightarrow> prompt ?r = ''Select option:''"
    using C10_prompt_is_constant [of "''Proceed? (y/n)''" ?r] by blast
  with parse_yes_no show ?thesis by simp
qed

section \<open>One event for each reset\<close>

lemma feed_Cons:
  "feed strip w ((now, d) # ds) =
     (fst (process strip now w d) # fst (feed strip (fst (snd (process strip now w d))) ds),
      snd (feed strip (fst (snd (process strip now w d))) ds))"
  by (simp split: prod.splits)

lemma feed_held:
  assumes "lastTrigger w = Some (hashPrompt ''Select option:'')"
  shows "fst (feed strip w cs) = replicate (length cs) None
       \<and> lastTrigger (snd (feed strip w cs)) = lastTrigger w
       \<and> maxLines (snd (feed strip w cs)) = maxLines w"
  using assms
proof (induction cs arbitrary: w)
  case Nil
  then show ?case by simp
next
  case (Cons c cs)
  obtain now d where c: "c = (now, d)" by (cases c)
  let ?w1 = "w\<lparr>lines := push_lines w (stripAnsi strip d)\<rparr>"
  have p: "process strip now w d = (None, ?w1, [])"
    using Cons.prems by (rule process_held)
  have "lastTrigger ?w1 = Some (hashPrompt ''Select option:'')"
    using Cons.prems by simp
  from Cons.IH [OF this] show ?case
    unfolding c feed_Cons p by simp
qed

lemma reset_eq: "maxLines w' = maxLines w \<Longrightarrow> reset w' = reset w"
  by (simp add: reset_def)

lemma process_fst_time: "fst (process strip now w d) = fst (process strip now' w d)"
  by (simp add: process_def Let_def split: option.splits)

lemma push_lines_yes_no:
  "push_lines (reset (Watcher_new None)) (stripAnsi (\<lambda>t. t) ''Proceed? (y/n)'') =
     [''Proceed? (y/n)'']"
proof -
  have "filter (\<lambda>line. length (trim line) > 0) (split_nl ''Proceed? (y/n)'') = [''Proceed? (y/n)'']"
    by code_simp
  then show ?thesis
    by (simp add: push_lines_def stripAnsi_def reset_def Watcher_new_def)
qed

lemma process_yes_no:
  "process (\<lambda>t. t) now (reset (Watcher_new None)) ''Proceed? (y/n)'' =
     (Some \<lparr>ev_prompt = ''Select option:'',
             ev_options = [\<lparr>label = ''Yes'', val = ''y''\<rparr>, \<lparr>label = ''No'', val = ''n''\<rparr>],
             ev_patternName = ''yes-no'', ev_isNew = True\<rparr>,
      (reset (Watcher_new None))
        \<lparr>lines := [''Proceed? (y/n)''],
          lastTrigger := Some (hashPrompt ''Select option:''), lastTriggerTime := now\<rparr>,
      [\<lparr>prompt = ''Select option:'',
        options = [\<lparr>label = ''Yes'', val = ''y''\<rparr>, \<lparr>label = ''No'', val = ''n''\<rparr>],
        patternName = ''yes-no''\<rparr>])"
proof -
  have idle: "lastTrigger (reset (Watcher_new None)) = None"
    by (simp add: reset_def)
  have "parseOptions (join_nl (push_lines (reset (Watcher_new None))
                                 (stripAnsi (\<lambda>t. t) ''Proceed? (y/n)''))) =
          Some \<lparr>prompt = ''Select option:'',
                options = [\<lparr>label = ''Yes'', val = ''y''\<rparr>, \<lparr>label = ''No'', val = ''n''\<rparr>],
                patternName = ''yes-no''\<rparr>"
    unfolding push_lines_yes_no using parse_yes_no by simp
  from process_idle [OF idle this, of now] show ?thesis
    unfolding push_lines_yes_no by simp
qed

text \<open>
  C3. Let a prompt text give an options event when the idle detector processes it
  (the text matches a pattern). Fed again and again, at any times, the same text
  gives that one event and nothing after it; and after \<open>reset()\<close> the same text
  gives the event a second time.
\<close>

theorem C3_one_event_until_reset:
  assumes "fst (process strip t0 (reset w) p) = Some ev"
  shows "fst (feed strip (reset w) (map (\<lambda>t. (t, p)) (t0 # ts))) =
           Some ev # replicate (length ts) None
       \<and> fst (process strip t1
                (reset (snd (feed strip (reset w) (map (\<lambda>t. (t, p)) (t0 # ts))))) p) = Some ev"
proof -
  obtain w1 cb where p: "process strip t0 (reset w) p = (Some ev, w1, cb)"
    using assms by (cases "process strip t0 (reset w) p") auto
  have held: "lastTrigger w1 = Some (hashPrompt ''Select option:'')"
    and ml: "maxLines w1 = maxLines (reset w)"
    using process_Some [OF p] by simp_all
  note rest = feed_held [OF held, of strip "map (\<lambda>t. (t, p)) ts"]
  have one: "fst (feed strip (reset w) (map (\<lambda>t. (t, p)) (t0 # ts))) =
               Some ev # replicate (length ts) None"
    using rest unfolding list.map feed_Cons p by simp
  have "maxLines (snd (feed strip (reset w) (map (\<lambda>t. (t, p)) (t0 # ts)))) = maxLines w"
    using rest ml unfolding list.map feed_Cons p by (simp add: reset_def)
  then have "reset (snd (feed strip (reset w) (map (\<lambda>t. (t, p)) (t0 # ts)))) = reset w"
    by (rule reset_eq)
  then have "fst (process strip t1
                (reset (snd (feed strip (reset w) (map (\<lambda>t. (t, p)) (t0 # ts))))) p) = Some ev"
    using assms process_fst_time [of strip t1 "reset w" p t0] by simp
  with one show ?thesis by simp
qed

theorem C3_one_event_until_reset_witness:
  "fst (feed (\<lambda>t. t) (reset (Watcher_new None))
          [(0, ''Proceed? (y/n)''), (10, ''Proceed? (y/n)''), (20, ''Proceed? (y/n)'')]) =
     [Some \<lparr>ev_prompt = ''Select option:'',
            ev_options = [\<lparr>label = ''Yes'', val = ''y''\<rparr>, \<lparr>label = ''No'', val = ''n''\<rparr>],
            ev_patternName = ''yes-no'', ev_isNew = True\<rparr>, None, None]
   \<and> fst (process (\<lambda>t. t) 30
          (reset (snd (feed (\<lambda>t. t) (reset (Watcher_new None))
             [(0, ''Proceed? (y/n)''), (10, ''Proceed? (y/n)''), (20, ''Proceed? (y/n)'')])))
          ''Proceed? (y/n)'') =
     Some \<lparr>ev_prompt = ''Select option:'',
           ev_options = [\<lparr>label = ''Yes'', val = ''y''\<rparr>, \<lparr>label = ''No'', val = ''n''\<rparr>],
           ev_patternName = ''yes-no'', ev_isNew = True\<rparr>"
proof -
  have first: "fst (process (\<lambda>t. t) 0 (reset (Watcher_new None)) ''Proceed? (y/n)'') =
                 Some \<lparr>ev_prompt = ''Select option:'',
                       ev_options = [\<lparr>label = ''Yes'', val = ''y''\<rparr>, \<lparr>label = ''No'', val = ''n''\<rparr>],
                       ev_patternName = ''yes-no'', ev_isNew = True\<rparr>"
    by (simp add: process_yes_no)
  from C3_one_event_until_reset [OF first, of "[10, 20]" 30] show ?thesis by simp
qed

section \<open>The pattern library on the three sample prompts\<close>

text \<open>
  C5. \<open>parseOptions\<close> gives the choices Yes/y and No/n on \<open>Proceed? (y/n)\<close>, the
  choices 1/1 and 2/2 on a text with the lines \<open>1. Apply\<close> and \<open>2. Skip\<close> (alone,
  or between other lines), and the choices Apply/a and Reject/r on
  \<open>(a)pply (r)eject\<close>.
\<close>

theorem C5_sample_prompts:
  "parseOptions ''Proceed? (y/n)'' =
     Some \<lparr>prompt = ''Select option:'',
           options = [\<lparr>label = ''Yes'', val = ''y''\<rparr>, \<lparr>label = ''No'', val = ''n''\<rparr>],
           patternName = ''yes-no''\<rparr>
   \<and> parseOptions ''1. Apply\<newline>2. Skip'' =
     Some \<lparr>prompt = ''Select option:'',
           options = [\<lparr>label = ''1'', val = ''1''\<rparr>, \<lparr>label = ''2'', val = ''2''\<rparr>],
           patternName = ''numbered-options''\<rparr>
   \<and> parseOptions ''Choose one:\<newline>1. Apply\<newline>2. Skip\<newline>> '' =
     Some \<lparr>prompt = ''Select option:'',
           options = [\<lparr>label = ''1'', val = ''1''\<rparr>, \<lparr>label = ''2'', val = ''2''\<rparr>],
           patternName = ''numbered-options''\<rparr>
   \<and> parseOptions ''(a)pply (r)eject'' =
     Some \<lparr>prompt = ''Select option:'',
           options = [\<lparr>label = ''Apply'', val = ''a''\<rparr>, \<lparr>label = ''Reject'', val = ''r''\<rparr>],
           patternName = ''letter-in-parens''\<rparr>"
proof -
  have "parseOptions ''1. Apply\<newline>2. Skip'' =
     Some \<lparr>prompt = ''Select option:'',
           options = [\<lparr>label = ''1'', val = ''1''\<rparr>, \<lparr>label = ''2'', val = ''2''\<rparr>],
           patternName = ''numbered-options''\<rparr>"
    by code_simp
  moreover have "parseOptions ''Choose one:\<newline>1. Apply\<newline>2. Skip\<newline>> '' =
     Some \<lparr>prompt = ''Select option:'',
           options = [\<lparr>label = ''1'', val = ''1''\<rparr>, \<lparr>label = ''2'', val = ''2''\<rparr>],
           patternName = ''numbered-options''\<rparr>"
    by code_simp
  moreover have "parseOptions ''(a)pply (r)eject'' =
     Some \<lparr>prompt = ''Select option:'',
           options = [\<lparr>label = ''Apply'', val = ''a''\<rparr>, \<lparr>label = ''Reject'', val = ''r''\<rparr>],
           patternName = ''letter-in-parens''\<rparr>"
    by code_simp
  ultimately show ?thesis using parse_yes_no by simp
qed

section \<open>Two different prompts with no reset between them\<close>

lemma reset_new [simp]: "reset (Watcher_new m) = Watcher_new m"
  by (simp add: reset_def Watcher_new_def)

lemma push_lines_second:
  "push_lines ((Watcher_new None)\<lparr>lines := [''Proceed? (y/n)''], lastTrigger := h, lastTriggerTime := t\<rparr>)
     (stripAnsi (\<lambda>t. t) ''1. Apply\<newline>2. Skip'') =
   [''Proceed? (y/n)'', ''1. Apply'', ''2. Skip'']"
proof -
  have "filter (\<lambda>line. length (trim line) > 0) (split_nl ''1. Apply\<newline>2. Skip'') =
          [''1. Apply'', ''2. Skip'']"
    by code_simp
  then show ?thesis
    by (simp add: push_lines_def stripAnsi_def Watcher_new_def)
qed

lemma parse_second_window:
  "parseOptions (join_nl [''Proceed? (y/n)'', ''1. Apply'', ''2. Skip'']) =
     Some \<lparr>prompt = ''Select option:'',
           options = [\<lparr>label = ''1'', val = ''1''\<rparr>, \<lparr>label = ''2'', val = ''2''\<rparr>],
           patternName = ''numbered-options''\<rparr>"
  by code_simp

text \<open>The fingerprint of every match: the hash of the constant prompt.\<close>

lemma hash_of_prompt: "foldl hash_step 0 ''Select option:'' = - 1428461727"
  by (simp add: hash_step_def)

lemma hashPrompt_constant: "hashPrompt ''Select option:'' = ''-5524989f''"
  unfolding hashPrompt_def hash_of_prompt by (simp add: toString16_def hex_digit_def)

text \<open>
  C2, on the code. The detector starts idle and receives \<open>Proceed? (y/n)\<close>, then,
  with no reset, the menu \<open>1. Apply\<close>, \<open>2. Skip\<close>. The first chunk gives the
  yes/no event. On the second chunk the pattern library matches the window as a
  numbered menu with other choices, and \<open>process\<close> returns \<open>null\<close>: the fingerprint
  is taken of the prompt field, which is the same string for every match.
\<close>

theorem C2_second_prompt_gives_no_event:
  "fst (feed (\<lambda>t. t) (Watcher_new None)
          [(0, ''Proceed? (y/n)''), (10, ''1. Apply\<newline>2. Skip'')]) =
     [Some \<lparr>ev_prompt = ''Select option:'',
            ev_options = [\<lparr>label = ''Yes'', val = ''y''\<rparr>, \<lparr>label = ''No'', val = ''n''\<rparr>],
            ev_patternName = ''yes-no'', ev_isNew = True\<rparr>,
      None]
   \<and> parseOptions (join_nl (lines (snd (feed (\<lambda>t. t) (Watcher_new None)
          [(0, ''Proceed? (y/n)''), (10, ''1. Apply\<newline>2. Skip'')])))) =
     Some \<lparr>prompt = ''Select option:'',
           options = [\<lparr>label = ''1'', val = ''1''\<rparr>, \<lparr>label = ''2'', val = ''2''\<rparr>],
           patternName = ''numbered-options''\<rparr>"
proof -
  let ?w1 = "(Watcher_new None)\<lparr>lines := [''Proceed? (y/n)''],
               lastTrigger := Some (hashPrompt ''Select option:''), lastTriggerTime := 0\<rparr>"
  have p1: "process (\<lambda>t. t) 0 (Watcher_new None) ''Proceed? (y/n)'' =
              (Some \<lparr>ev_prompt = ''Select option:'',
                      ev_options = [\<lparr>label = ''Yes'', val = ''y''\<rparr>, \<lparr>label = ''No'', val = ''n''\<rparr>],
                      ev_patternName = ''yes-no'', ev_isNew = True\<rparr>,
               ?w1,
               [\<lparr>prompt = ''Select option:'',
                 options = [\<lparr>label = ''Yes'', val = ''y''\<rparr>, \<lparr>label = ''No'', val = ''n''\<rparr>],
                 patternName = ''yes-no''\<rparr>])"
    using process_yes_no [of 0] by simp
  have "lastTrigger ?w1 = Some (hashPrompt ''Select option:'')" by simp
  from process_held [OF this, of "\<lambda>t. t" 10 "''1. Apply\<newline>2. Skip''"]
  have p2: "process (\<lambda>t. t) 10 ?w1 ''1. Apply\<newline>2. Skip'' =
              (None, ?w1\<lparr>lines := [''Proceed? (y/n)'', ''1. Apply'', ''2. Skip'']\<rparr>, [])"
    unfolding push_lines_second .
  show ?thesis
    unfolding feed_Cons p1 fst_conv snd_conv p2 feed.simps
    using parse_second_window by simp
qed

section \<open>Killing the session\<close>

text \<open>
  C7 as stated fails: on a manager that has just spawned a subprocess, \<open>kill\<close>
  returns with the running flag cleared, before any exit notification.
\<close>

theorem C7_kill_clears_running_flag:
  "running (fst (snd (spawn (\<lambda>c a so. Inr 7) (ptyManager server_init) ''claude'' [] None)))
   \<and> \<not> running (fst (kill (fst (snd (spawn (\<lambda>c a so. Inr 7) (ptyManager server_init) ''claude'' [] None)))
                      ''SIGTERM''))"
  by (simp add: spawn_def kill_def server_init_def PTYManager_new_def Let_def)

text \<open>
  C7 as the code has it. On a running session \<open>kill(signal)\<close> signals the
  subprocess and clears the running flag at once, changing nothing else; when no
  session runs it does nothing. The exit notification clears the flag (again) and
  records the exit code.
\<close>

theorem C7_kill_signals_and_clears:
  "(pty m \<noteq> None \<and> running m \<longrightarrow> kill m signal = (m\<lparr>running := False\<rparr>, [PtyKill signal]))
   \<and> (\<not> running m \<longrightarrow> kill m signal = (m, []))
   \<and> \<not> running (fst (kill (m\<lparr>pty := Some h\<rparr>) signal))
   \<and> onExit m code sig = (m\<lparr>running := False, exitCode := Some code\<rparr>, [EvExit code sig])"
  by (simp add: kill_def onExit_def)

theorem C7_kill_signals_and_clears_witness:
  "kill (fst (snd (spawn (\<lambda>c a so. Inr 7) (ptyManager server_init) ''claude'' [] None))) ''SIGTERM'' =
     ((fst (snd (spawn (\<lambda>c a so. Inr 7) (ptyManager server_init) ''claude'' [] None)))\<lparr>running := False\<rparr>,
      [PtyKill ''SIGTERM''])"
proof -
  let ?m = "fst (snd (spawn (\<lambda>c a so. Inr 7) (ptyManager server_init) ''claude'' [] None))"
  have "pty ?m \<noteq> None \<and> running ?m"
    by (simp add: spawn_def server_init_def PTYManager_new_def Let_def)
  with C7_kill_signals_and_clears [of ?m "''SIGTERM''"] show ?thesis by blast
qed

section \<open>The numbered-list matcher\<close>













































section \<open>Starting while a session runs\<close>

lemma spawn_running:
  "running m \<Longrightarrow> spawn pty_spawn m command args cwd = (Inl AlreadyRunning, m, [])"
  by (simp add: spawn_def)

lemma spawn_accepted:
  assumes "\<not> running m"
    and "pty_spawn command args
           \<lparr> so_name = ''xterm-256color'', so_cols = cols m, so_rows = rows m,
             so_cwd = (case cwd of None \<Rightarrow> ''/workspace''
                       | Some d \<Rightarrow> if d = [] then ''/workspace'' else d) \<rparr> = Inr h"
  shows "spawn pty_spawn m command args cwd =
           (Inr True, m\<lparr>pty := Some h, running := True, exitCode := None, buffer := []\<rparr>,
            [EvSpawn command args])"
  using assms by (simp add: spawn_def Let_def)

lemma startClaude_running:
  "running (ptyManager s) \<Longrightarrow>
     startClaude cfg pty_spawn s args dir =
       (s, [Broadcast (MsgError ''Claude Code is already running'')
              (map fst (filter (\<lambda>(i, c). cl_open c) (clients s)))])"
  by (simp add: startClaude_def isRunning_def broadcast_def)

lemma world_kill_running:
  "running (manager w) \<Longrightarrow> pty (manager w) \<noteq> None \<Longrightarrow>
     world_kill w signal = (w\<lparr>manager := (manager w)\<lparr>running := False\<rparr>\<rparr>, [PtyKill signal])"
  by (simp add: world_kill_def kill_def)

text \<open>
  C6 as stated fails: a session is started (subprocess 7) and \<open>kill\<close> is called.
  No exit has been notified, so subprocess 7 still exists; a second start is
  nevertheless accepted, and two subprocesses exist.
\<close>

theorem C6_start_accepted_after_kill:
  "alive (fst (world_kill
       (fst (snd (world_spawn (\<lambda>c a so. Inr 7) \<lparr>manager = ptyManager server_init, alive = []\<rparr>
                    ''claude'' [] None)))
       ''SIGTERM'')) = [7]
   \<and> fst (world_spawn (\<lambda>c a so. Inr 8)
       (fst (world_kill
          (fst (snd (world_spawn (\<lambda>c a so. Inr 7) \<lparr>manager = ptyManager server_init, alive = []\<rparr>
                       ''claude'' [] None)))
          ''SIGTERM''))
       ''claude'' [] None) = Inr True
   \<and> alive (fst (snd (world_spawn (\<lambda>c a so. Inr 8)
       (fst (world_kill
          (fst (snd (world_spawn (\<lambda>c a so. Inr 7) \<lparr>manager = ptyManager server_init, alive = []\<rparr>
                       ''claude'' [] None)))
          ''SIGTERM''))
       ''claude'' [] None))) = [7, 8]"
proof -
  define w1 where "w1 = fst (snd (world_spawn (\<lambda>c a so. Inr 7)
                      \<lparr>manager = ptyManager server_init, alive = []\<rparr> ''claude'' [] None))"
  define w2 where "w2 = fst (world_kill w1 ''SIGTERM'')"
  have w1: "alive w1 = [7] \<and> running (manager w1) \<and> pty (manager w1) = Some 7"
    by (simp add: w1_def world_spawn_def spawn_def server_init_def PTYManager_new_def Let_def)
  have w2: "alive w2 = [7] \<and> \<not> running (manager w2)"
    using w1 by (simp add: w2_def world_kill_def kill_def)
  have "alive w2 = [7]
        \<and> fst (world_spawn (\<lambda>c a so. Inr 8) w2 ''claude'' [] None) = Inr True
        \<and> alive (fst (snd (world_spawn (\<lambda>c a so. Inr 8) w2 ''claude'' [] None))) = [7, 8]"
    using w2 by (simp add: world_spawn_def spawn_def Let_def)
  then show ?thesis unfolding w2_def w1_def .
qed

text \<open>
  C6 as the code has it. While the manager's running flag is set, \<open>spawn\<close> throws
  the already-running error and \<open>startClaude\<close> broadcasts its error message to the
  open connections; neither changes the manager (running flag, buffer, exit code,
  geometry) nor anything else of the server: the request is rejected, not queued.
  While the flag is clear a start is accepted. \<open>kill\<close> clears the flag at once and
  leaves the subprocess among those that exist, so a start requested after \<open>kill\<close>
  and before the exit is accepted and creates a second subprocess.
\<close>

theorem C6_start_rejected_while_flag_set:
  "(running (ptyManager s) \<longrightarrow>
      spawn pty_spawn (ptyManager s) command args cwd = (Inl AlreadyRunning, ptyManager s, [])
      \<and> startClaude cfg pty_spawn s args dir =
          (s, [Broadcast (MsgError ''Claude Code is already running'')
                 (map fst (filter (\<lambda>(i, c). cl_open c) (clients s)))]))
   \<and> (\<not> running m \<and>
       pty_spawn command args
         \<lparr> so_name = ''xterm-256color'', so_cols = cols m, so_rows = rows m,
           so_cwd = (case cwd of None \<Rightarrow> ''/workspace''
                     | Some d \<Rightarrow> if d = [] then ''/workspace'' else d) \<rparr> = Inr h \<longrightarrow>
      spawn pty_spawn m command args cwd =
        (Inr True, m\<lparr>pty := Some h, running := True, exitCode := None, buffer := []\<rparr>,
         [EvSpawn command args]))
   \<and> (running (manager w) \<and> pty (manager w) \<noteq> None \<and>
       pty_spawn command args
         \<lparr> so_name = ''xterm-256color'', so_cols = cols (manager w), so_rows = rows (manager w),
           so_cwd = (case cwd of None \<Rightarrow> ''/workspace''
                     | Some d \<Rightarrow> if d = [] then ''/workspace'' else d) \<rparr> = Inr h \<longrightarrow>
      world_kill w signal = (w\<lparr>manager := (manager w)\<lparr>running := False\<rparr>\<rparr>, [PtyKill signal])
      \<and> world_spawn pty_spawn (fst (world_kill w signal)) command args cwd =
          (Inr True,
           w\<lparr>manager := (manager w)\<lparr>pty := Some h, running := True, exitCode := None, buffer := []\<rparr>,
             alive := alive w @ [h]\<rparr>,
           [EvSpawn command args]))"
proof (intro conjI impI)
  assume "running (ptyManager s)"
  then show "spawn pty_spawn (ptyManager s) command args cwd = (Inl AlreadyRunning, ptyManager s, [])"
    by (rule spawn_running)
next
  assume "running (ptyManager s)"
  then show "startClaude cfg pty_spawn s args dir =
          (s, [Broadcast (MsgError ''Claude Code is already running'')
                 (map fst (filter (\<lambda>(i, c). cl_open c) (clients s)))])"
    by (rule startClaude_running)
next
  assume "\<not> running m \<and>
       pty_spawn command args
         \<lparr> so_name = ''xterm-256color'', so_cols = cols m, so_rows = rows m,
           so_cwd = (case cwd of None \<Rightarrow> ''/workspace''
                     | Some d \<Rightarrow> if d = [] then ''/workspace'' else d) \<rparr> = Inr h"
  then show "spawn pty_spawn m command args cwd =
        (Inr True, m\<lparr>pty := Some h, running := True, exitCode := None, buffer := []\<rparr>,
         [EvSpawn command args])"
    using spawn_accepted [of m pty_spawn command args cwd h] by blast
next
  assume a: "running (manager w) \<and> pty (manager w) \<noteq> None \<and>
       pty_spawn command args
         \<lparr> so_name = ''xterm-256color'', so_cols = cols (manager w), so_rows = rows (manager w),
           so_cwd = (case cwd of None \<Rightarrow> ''/workspace''
                     | Some d \<Rightarrow> if d = [] then ''/workspace'' else d) \<rparr> = Inr h"
  then show k: "world_kill w signal = (w\<lparr>manager := (manager w)\<lparr>running := False\<rparr>\<rparr>, [PtyKill signal])"
    by (simp add: world_kill_running)
  let ?m = "(manager w)\<lparr>running := False\<rparr>"
  have "spawn pty_spawn ?m command args cwd =
          (Inr True, ?m\<lparr>pty := Some h, running := True, exitCode := None, buffer := []\<rparr>,
           [EvSpawn command args])"
    using a by (intro spawn_accepted) simp_all
  then show "world_spawn pty_spawn (fst (world_kill w signal)) command args cwd =
          (Inr True,
           w\<lparr>manager := (manager w)\<lparr>pty := Some h, running := True, exitCode := None, buffer := []\<rparr>,
             alive := alive w @ [h]\<rparr>,
           [EvSpawn command args])"
    unfolding k by (simp add: world_spawn_def)
qed

theorem C6_start_rejected_while_flag_set_witness:
  "startClaude config_default (\<lambda>c a so. Inr 8)
     (fst (startClaude config_default (\<lambda>c a so. Inr 7)
             (fst (on_connection server_init 1 ''10.0.0.1'' True 0 0)) [] (Inr ''/workspace'')))
     [] (Inr ''/workspace'') =
   (fst (startClaude config_default (\<lambda>c a so. Inr 7)
           (fst (on_connection server_init 1 ''10.0.0.1'' True 0 0)) [] (Inr ''/workspace'')),
    [Broadcast (MsgError ''Claude Code is already running'') [1]])
   \<and> running (ptyManager (fst (startClaude config_default (\<lambda>c a so. Inr 7)
           (fst (on_connection server_init 1 ''10.0.0.1'' True 0 0)) [] (Inr ''/workspace''))))
   \<and> fst (spawn (\<lambda>c a so. Inr 7) (ptyManager server_init) ''claude'' [] None) = Inr True
   \<and> alive (fst (snd (world_spawn (\<lambda>c a so. Inr 8)
         (fst (world_kill
            \<lparr>manager = (ptyManager server_init)\<lparr>pty := Some 7, running := True\<rparr>, alive = [7]\<rparr>
            ''SIGTERM''))
         ''claude'' [] None))) = [7, 8]"
proof -
  define s1 where "s1 = fst (on_connection server_init 1 ''10.0.0.1'' True 0 0)"
  define s2 where "s2 = fst (startClaude config_default (\<lambda>c a so. Inr 7) s1 [] (Inr ''/workspace''))"
  define w where "w = \<lparr>manager = (ptyManager server_init)\<lparr>pty := Some 7, running := True\<rparr>, alive = [7]\<rparr>"
  have c1: "clients s1 = [(1, \<lparr>cl_ip = ''10.0.0.1'', violations = 0, messageTimestamps = [], cl_open = True\<rparr>)]"
    and r1: "\<not> running (ptyManager s1)"
    by (simp_all add: s1_def on_connection_def server_init_def WS_RATE_LIMIT_def Let_def
        PTYManager_new_def)
  have r: "running (ptyManager s2)" and c2: "clients s2 = clients s1"
    using r1 by (simp_all add: s2_def startClaude_def spawn_def isRunning_def config_default_def Let_def)
  have r0: "\<not> running (ptyManager server_init)"
    by (simp add: server_init_def PTYManager_new_def)
  have rw: "running (manager w) \<and> pty (manager w) \<noteq> None" and aw: "alive w = [7]"
    by (simp_all add: w_def)
  have "startClaude config_default (\<lambda>c a so. Inr 8) s2 [] (Inr ''/workspace'') =
          (s2, [Broadcast (MsgError ''Claude Code is already running'')
                  (map fst (filter (\<lambda>(i, c). cl_open c) (clients s2)))])"
    using r C6_start_rejected_while_flag_set [of s2 "\<lambda>c a so. Inr 8" _ "[]" _ config_default
        "Inr ''/workspace''"]
    by blast
  then have a: "startClaude config_default (\<lambda>c a so. Inr 8) s2 [] (Inr ''/workspace'') =
          (s2, [Broadcast (MsgError ''Claude Code is already running'') [1]])
        \<and> running (ptyManager s2)"
    using r by (simp add: c2 c1)
  have b: "fst (spawn (\<lambda>c a so. Inr 7) (ptyManager server_init) ''claude'' [] None) = Inr True"
    using r0 C6_start_rejected_while_flag_set [of _ "\<lambda>c a so. Inr 7" "''claude''" "[]" None _ _
        "ptyManager server_init" 7]
    by simp
  have "world_spawn (\<lambda>c a so. Inr 8) (fst (world_kill w ''SIGTERM'')) ''claude'' [] None =
          (Inr True,
           w\<lparr>manager := (manager w)\<lparr>pty := Some 8, running := True, exitCode := None, buffer := []\<rparr>,
             alive := alive w @ [8]\<rparr>,
           [EvSpawn ''claude'' []])"
    using rw C6_start_rejected_while_flag_set [where pty_spawn = "\<lambda>c a so. Inr 8"
        and command = "''claude''" and args = "[]" and cwd = None and h = 8 and w = w
        and signal = "''SIGTERM''"]
    by blast
  then have c: "alive (fst (snd (world_spawn (\<lambda>c a so. Inr 8) (fst (world_kill w ''SIGTERM''))
                           ''claude'' [] None))) = [7, 8]"
    by (simp add: aw)
  from a b c show ?thesis unfolding s2_def s1_def w_def by blast
qed

section \<open>Rate limit, violations and the ban\<close>

lemma map_of_replace:
  "map_of (map (\<lambda>(i, x). if i = cid then (i, c) else (i, x)) xs) j =
     (if j = cid then map_option (\<lambda>x. c) (map_of xs cid) else map_of xs j)"
  by (induction xs) auto

lemma set_client_lookup:
  "map_of (clients (set_client s cid c)) j =
     (if j = cid then map_option (\<lambda>x. c) (map_of (clients s) cid) else map_of (clients s) j)"
  by (simp add: set_client_def map_of_replace)

lemma set_client_fields [simp]:
  "wsConnections (set_client s cid c) = wsConnections s"
  "bannedIps (set_client s cid c) = bannedIps s"
  "ptyManager (set_client s cid c) = ptyManager s"
  "watcher (set_client s cid c) = watcher s"
  "notifier (set_client s cid c) = notifier s"
  by (simp_all add: set_client_def)

lemma on_message_dropped:
  assumes "map_of (clients s) cid = Some c" and "sz \<le> 65536"
    and "length (filter (\<lambda>t. now - t < MESSAGE_WINDOW) (messageTimestamps c)) \<ge> MESSAGE_RATE_LIMIT"
    and "violations c + 1 < MAX_VIOLATIONS"
  shows "on_message cfg sp strip s cid sz parsed now t1 =
           (set_client s cid
              (c\<lparr>messageTimestamps := filter (\<lambda>t. now - t < MESSAGE_WINDOW) (messageTimestamps c),
                 violations := violations c + 1\<rparr>), [])"
  using assms by (simp add: on_message_def Let_def)

lemma on_message_banned:
  assumes "map_of (clients s) cid = Some c" and "sz \<le> 65536"
    and "length (filter (\<lambda>t. now - t < MESSAGE_WINDOW) (messageTimestamps c)) \<ge> MESSAGE_RATE_LIMIT"
    and "violations c + 1 \<ge> MAX_VIOLATIONS"
  shows "on_message cfg sp strip s cid sz parsed now t1 =
           ((set_client s cid
               (c\<lparr>messageTimestamps := filter (\<lambda>t. now - t < MESSAGE_WINDOW) (messageTimestamps c),
                  violations := violations c + 1, cl_open := False\<rparr>))
              \<lparr>bannedIps := (bannedIps s)(cl_ip c \<mapsto> t1 + BAN_DURATION)\<rparr>,
            [Close cid 4429 ''Rate limit exceeded - temporarily banned''])"
  using assms by (simp add: on_message_def Let_def)

lemma on_message_accepted_unparsed:
  assumes "map_of (clients s) cid = Some c" and "sz \<le> 65536"
    and "length (filter (\<lambda>t. now - t < MESSAGE_WINDOW) (messageTimestamps c)) < MESSAGE_RATE_LIMIT"
  shows "on_message cfg sp strip s cid sz None now t1 =
           (set_client s cid
              (c\<lparr>messageTimestamps :=
                   filter (\<lambda>t. now - t < MESSAGE_WINDOW) (messageTimestamps c) @ [now]\<rparr>),
            [LogInvalid])"
  using assms by (simp add: on_message_def Let_def)

lemma on_connection_during_ban:
  assumes "bannedIps s ip = Some expiry" and "t0 < expiry"
  shows "on_connection s cid ip valid t0 now = (s, [Close cid 4403 ''Temporarily banned''])"
  using assms by (simp add: on_connection_def)

lemma old_connections_expired:
  assumes "\<forall>t \<in> set ts. t + BAN_DURATION \<le> now"
  shows "filter (\<lambda>t. now - t < WS_WINDOW) ts = []"
  using assms by (auto simp: filter_empty_conv BAN_DURATION_def WS_WINDOW_def)

lemma on_connection_after_ban:
  assumes "bannedIps s ip = Some expiry" and "expiry \<le> t0" and "t0 \<le> now"
    and "\<forall>t \<in> set (case wsConnections s ip of None \<Rightarrow> [] | Some ts \<Rightarrow> ts). t + BAN_DURATION \<le> expiry"
  shows "on_connection s cid ip True t0 now =
           (let s1 = s\<lparr> wsConnections := (wsConnections s)(ip \<mapsto> [now]),
                       clients := clients s @
                         [(cid, \<lparr>cl_ip = ip, violations = 0, messageTimestamps = [], cl_open = True\<rparr>)] \<rparr>
            in (s1, [Send cid (state_msg s1)]))"
proof -
  have "\<forall>t \<in> set (case wsConnections s ip of None \<Rightarrow> [] | Some ts \<Rightarrow> ts). t + BAN_DURATION \<le> now"
    using assms(2,3,4) by fastforce
  then have "filter (\<lambda>t. now - t < WS_WINDOW) (case wsConnections s ip of None \<Rightarrow> [] | Some ts \<Rightarrow> ts) = []"
    by (rule old_connections_expired)
  then show ?thesis
    using assms(1,2) by (simp add: on_connection_def Let_def WS_RATE_LIMIT_def)
qed

text \<open>A run of messages of one connection.\<close>

lemma on_messages_Cons:
  "on_messages cfg sp strip s cid ((sz, parsed, now, t1) # ms) =
     (fst (on_messages cfg sp strip (fst (on_message cfg sp strip s cid sz parsed now t1)) cid ms),
      snd (on_message cfg sp strip s cid sz parsed now t1) @
      snd (on_messages cfg sp strip (fst (on_message cfg sp strip s cid sz parsed now t1)) cid ms))"
  by (simp split: prod.splits)

lemma on_messages_append:
  "on_messages cfg sp strip s cid (ms @ ms') =
     (fst (on_messages cfg sp strip (fst (on_messages cfg sp strip s cid ms)) cid ms'),
      snd (on_messages cfg sp strip s cid ms) @
      snd (on_messages cfg sp strip (fst (on_messages cfg sp strip s cid ms)) cid ms'))"
proof (induction ms arbitrary: s)
  case Nil
  then show ?case by simp
next
  case (Cons m ms)
  obtain sz parsed now t1 where m: "m = (sz, parsed, now, t1)" by (cases m)
  show ?case unfolding m append_Cons on_messages_Cons Cons.IH by simp
qed

lemma filter_all_recent:
  "\<forall>t \<in> set ts. now - t < w \<Longrightarrow> filter (\<lambda>t. now - t < (w::int)) ts = ts"
  by (induction ts) auto

lemma burst_dropped:
  assumes "map_of (clients s) cid = Some c"
    and "length (messageTimestamps c) \<ge> MESSAGE_RATE_LIMIT"
    and "\<forall>(sz, parsed, now, t1) \<in> set ms.
           sz \<le> 65536 \<and> (\<forall>t \<in> set (messageTimestamps c). now - t < MESSAGE_WINDOW)"
    and "violations c + length ms < MAX_VIOLATIONS"
  shows "snd (on_messages cfg sp strip s cid ms) = []
       \<and> map_of (clients (fst (on_messages cfg sp strip s cid ms))) cid =
           Some (c\<lparr>violations := violations c + length ms\<rparr>)
       \<and> bannedIps (fst (on_messages cfg sp strip s cid ms)) = bannedIps s
       \<and> wsConnections (fst (on_messages cfg sp strip s cid ms)) = wsConnections s"
  using assms
proof (induction ms arbitrary: s c)
  case Nil
  then show ?case by simp
next
  case (Cons m ms)
  obtain sz parsed now t1 where m: "m = (sz, parsed, now, t1)" by (cases m)
  from Cons.prems(3) have sz: "sz \<le> 65536"
    and rec: "\<forall>t \<in> set (messageTimestamps c). now - t < MESSAGE_WINDOW"
    and rest: "\<forall>(sz, parsed, now, t1) \<in> set ms.
           sz \<le> 65536 \<and> (\<forall>t \<in> set (messageTimestamps c). now - t < MESSAGE_WINDOW)"
    unfolding m by auto
  have f: "filter (\<lambda>t. now - t < MESSAGE_WINDOW) (messageTimestamps c) = messageTimestamps c"
    using rec by (rule filter_all_recent)
  let ?c1 = "c\<lparr>violations := violations c + 1\<rparr>"
  have step: "on_message cfg sp strip s cid sz parsed now t1 = (set_client s cid ?c1, [])"
    using on_message_dropped [OF Cons.prems(1) sz, of now] Cons.prems(2,4) unfolding f by simp
  have l1: "map_of (clients (set_client s cid ?c1)) cid = Some ?c1"
    using Cons.prems(1) by (simp add: set_client_lookup)
  have "snd (on_messages cfg sp strip (set_client s cid ?c1) cid ms) = []
       \<and> map_of (clients (fst (on_messages cfg sp strip (set_client s cid ?c1) cid ms))) cid =
           Some (?c1\<lparr>violations := violations ?c1 + length ms\<rparr>)
       \<and> bannedIps (fst (on_messages cfg sp strip (set_client s cid ?c1) cid ms)) =
           bannedIps (set_client s cid ?c1)
       \<and> wsConnections (fst (on_messages cfg sp strip (set_client s cid ?c1) cid ms)) =
           wsConnections (set_client s cid ?c1)"
    using Cons.prems(2,4) rest by (intro Cons.IH [OF l1]) simp_all
  then show ?case unfolding m on_messages_Cons step by simp
qed

lemma burst_accepted:
  assumes "map_of (clients s) cid = Some c" and "sz \<le> 65536"
    and "\<forall>t \<in> set (messageTimestamps c). now - t < MESSAGE_WINDOW"
    and "length (messageTimestamps c) + n \<le> MESSAGE_RATE_LIMIT"
  shows "map_of (clients (fst (on_messages cfg sp strip s cid (replicate n (sz, None, now, t1))))) cid =
           Some (c\<lparr>messageTimestamps := messageTimestamps c @ replicate n now\<rparr>)
       \<and> bannedIps (fst (on_messages cfg sp strip s cid (replicate n (sz, None, now, t1)))) = bannedIps s
       \<and> wsConnections (fst (on_messages cfg sp strip s cid (replicate n (sz, None, now, t1)))) =
           wsConnections s"
  using assms
proof (induction n arbitrary: s c)
  case 0
  then show ?case by simp
next
  case (Suc n)
  have f: "filter (\<lambda>t. now - t < MESSAGE_WINDOW) (messageTimestamps c) = messageTimestamps c"
    using Suc.prems(3) by (rule filter_all_recent)
  let ?c1 = "c\<lparr>messageTimestamps := messageTimestamps c @ [now]\<rparr>"
  have "length (filter (\<lambda>t. now - t < MESSAGE_WINDOW) (messageTimestamps c)) < MESSAGE_RATE_LIMIT"
    unfolding f using Suc.prems(4) by simp
  from on_message_accepted_unparsed [OF Suc.prems(1,2) this]
  have step: "on_message cfg sp strip s cid sz None now t1 = (set_client s cid ?c1, [LogInvalid])"
    unfolding f .
  have l1: "map_of (clients (set_client s cid ?c1)) cid = Some ?c1"
    using Suc.prems(1) by (simp add: set_client_lookup)
  have "map_of (clients (fst (on_messages cfg sp strip (set_client s cid ?c1) cid
                                (replicate n (sz, None, now, t1))))) cid =
           Some (?c1\<lparr>messageTimestamps := messageTimestamps ?c1 @ replicate n now\<rparr>)
       \<and> bannedIps (fst (on_messages cfg sp strip (set_client s cid ?c1) cid
                            (replicate n (sz, None, now, t1)))) = bannedIps (set_client s cid ?c1)
       \<and> wsConnections (fst (on_messages cfg sp strip (set_client s cid ?c1) cid
                               (replicate n (sz, None, now, t1)))) = wsConnections (set_client s cid ?c1)"
    using Suc.prems(2,3,4) by (intro Suc.IH [OF l1]) (auto simp: MESSAGE_WINDOW_def)
  then show ?case unfolding replicate_Suc on_messages_Cons step by (simp add: replicate_app_Cons_same)
qed

lemma violation_dropped:
  assumes "map_of (clients s) cid = Some c" and "sz \<le> 65536"
    and "length (filter (\<lambda>t. now - t < MESSAGE_WINDOW) (messageTimestamps c)) \<ge> MESSAGE_RATE_LIMIT"
    and "violations c + 1 < MAX_VIOLATIONS"
  shows "let s' = fst (on_message cfg sp strip s cid sz parsed now t1)
         in snd (on_message cfg sp strip s cid sz parsed now t1) = []
            \<and> map_of (clients s') cid =
                Some (c\<lparr>messageTimestamps := filter (\<lambda>t. now - t < MESSAGE_WINDOW) (messageTimestamps c),
                        violations := violations c + 1\<rparr>)
            \<and> bannedIps s' = bannedIps s \<and> wsConnections s' = wsConnections s
            \<and> ptyManager s' = ptyManager s \<and> watcher s' = watcher s \<and> notifier s' = notifier s"
  unfolding on_message_dropped [OF assms] Let_def
  using assms(1) by (simp add: set_client_lookup)

lemma violation_banned:
  assumes "map_of (clients s) cid = Some c" and "sz \<le> 65536"
    and "length (filter (\<lambda>t. now - t < MESSAGE_WINDOW) (messageTimestamps c)) \<ge> MESSAGE_RATE_LIMIT"
    and "violations c + 1 \<ge> MAX_VIOLATIONS"
  shows "let s' = fst (on_message cfg sp strip s cid sz parsed now t1)
         in snd (on_message cfg sp strip s cid sz parsed now t1) =
              [Close cid 4429 ''Rate limit exceeded - temporarily banned'']
            \<and> map_of (clients s') cid =
                Some (c\<lparr>messageTimestamps := filter (\<lambda>t. now - t < MESSAGE_WINDOW) (messageTimestamps c),
                        violations := violations c + 1, cl_open := False\<rparr>)
            \<and> bannedIps s' = (bannedIps s)(cl_ip c \<mapsto> t1 + BAN_DURATION)
            \<and> (\<forall>cid' valid t0 now'. t0 < t1 + BAN_DURATION \<longrightarrow>
                  on_connection s' cid' (cl_ip c) valid t0 now' =
                    (s', [Close cid' 4403 ''Temporarily banned'']))
            \<and> (\<forall>cid' t0 now'.
                  t1 + BAN_DURATION \<le> t0 \<and> t0 \<le> now' \<and>
                  (\<forall>t \<in> set (case wsConnections s (cl_ip c) of None \<Rightarrow> [] | Some ts \<Rightarrow> ts). t \<le> t1) \<longrightarrow>
                  on_connection s' cid' (cl_ip c) True t0 now' =
                    (let s1 = s'\<lparr> wsConnections := (wsConnections s')(cl_ip c \<mapsto> [now']),
                                 clients := clients s' @
                                   [(cid', \<lparr>cl_ip = cl_ip c, violations = 0, messageTimestamps = [],
                                           cl_open = True\<rparr>)] \<rparr>
                     in (s1, [Send cid' (state_msg s1)])))"
proof -
  define s' where "s' = fst (on_message cfg sp strip s cid sz parsed now t1)"
  note m = on_message_banned [OF assms, of cfg sp strip parsed t1]
  have a: "snd (on_message cfg sp strip s cid sz parsed now t1) =
             [Close cid 4429 ''Rate limit exceeded - temporarily banned'']"
    unfolding m by simp
  have l: "map_of (clients s') cid =
             Some (c\<lparr>messageTimestamps := filter (\<lambda>t. now - t < MESSAGE_WINDOW) (messageTimestamps c),
                     violations := violations c + 1, cl_open := False\<rparr>)"
    unfolding s'_def m using assms(1) by (simp add: set_client_lookup)
  have b: "bannedIps s' = (bannedIps s)(cl_ip c \<mapsto> t1 + BAN_DURATION)"
    unfolding s'_def m by simp
  then have ban: "bannedIps s' (cl_ip c) = Some (t1 + BAN_DURATION)" by simp
  have ws: "wsConnections s' = wsConnections s"
    unfolding s'_def m by simp
  have during: "on_connection s' cid' (cl_ip c) valid t0 now' = (s', [Close cid' 4403 ''Temporarily banned''])"
    if "t0 < t1 + BAN_DURATION" for cid' valid t0 now'
    using ban that by (rule on_connection_during_ban)
  have after: "on_connection s' cid' (cl_ip c) True t0 now' =
                    (let s1 = s'\<lparr> wsConnections := (wsConnections s')(cl_ip c \<mapsto> [now']),
                                 clients := clients s' @
                                   [(cid', \<lparr>cl_ip = cl_ip c, violations = 0, messageTimestamps = [],
                                           cl_open = True\<rparr>)] \<rparr>
                     in (s1, [Send cid' (state_msg s1)]))"
    if "t1 + BAN_DURATION \<le> t0 \<and> t0 \<le> now' \<and>
        (\<forall>t \<in> set (case wsConnections s (cl_ip c) of None \<Rightarrow> [] | Some ts \<Rightarrow> ts). t \<le> t1)"
    for cid' t0 now'
  proof -
    from that have x: "t1 + BAN_DURATION \<le> t0" and y: "t0 \<le> now'"
      and z: "\<forall>t \<in> set (case wsConnections s (cl_ip c) of None \<Rightarrow> [] | Some ts \<Rightarrow> ts). t \<le> t1"
      by blast+
    from z have d: "\<forall>t \<in> set (case wsConnections s' (cl_ip c) of None \<Rightarrow> [] | Some ts \<Rightarrow> ts).
                      t + BAN_DURATION \<le> t1 + BAN_DURATION"
      unfolding ws by auto
    show ?thesis by (rule on_connection_after_ban [OF ban x y d])
  qed
  show ?thesis
    unfolding s'_def [symmetric] Let_def [of s'] using a l b during after by blast
qed

lemma violations_in_a_row:
  assumes "map_of (clients s) cid = Some c"
    and "length (messageTimestamps c) \<ge> MESSAGE_RATE_LIMIT"
    and "\<forall>(sz', p', now', t1') \<in> set (ms @ [(sz, parsed, now, t1)]).
           sz' \<le> 65536 \<and> (\<forall>t \<in> set (messageTimestamps c). now' - t < MESSAGE_WINDOW)"
    and "violations c + length ms + 1 = MAX_VIOLATIONS"
  shows "(\<forall>k \<le> length ms.
            snd (on_messages cfg sp strip s cid (take k ms)) = []
            \<and> map_of (clients (fst (on_messages cfg sp strip s cid (take k ms)))) cid =
                Some (c\<lparr>violations := violations c + k\<rparr>)
            \<and> bannedIps (fst (on_messages cfg sp strip s cid (take k ms))) = bannedIps s)
       \<and> snd (on_messages cfg sp strip s cid (ms @ [(sz, parsed, now, t1)])) =
           [Close cid 4429 ''Rate limit exceeded - temporarily banned'']
       \<and> map_of (clients (fst (on_messages cfg sp strip s cid (ms @ [(sz, parsed, now, t1)])))) cid =
           Some (c\<lparr>violations := MAX_VIOLATIONS, cl_open := False\<rparr>)
       \<and> bannedIps (fst (on_messages cfg sp strip s cid (ms @ [(sz, parsed, now, t1)]))) =
           (bannedIps s)(cl_ip c \<mapsto> t1 + BAN_DURATION)"
proof -
  have all: "\<forall>(sz', p', now', t1') \<in> set ms.
           sz' \<le> 65536 \<and> (\<forall>t \<in> set (messageTimestamps c). now' - t < MESSAGE_WINDOW)"
    and sz: "sz \<le> 65536"
    and rec: "\<forall>t \<in> set (messageTimestamps c). now - t < MESSAGE_WINDOW"
    using assms(3) by auto
  have pre: "snd (on_messages cfg sp strip s cid (take k ms)) = []
            \<and> map_of (clients (fst (on_messages cfg sp strip s cid (take k ms)))) cid =
                Some (c\<lparr>violations := violations c + k\<rparr>)
            \<and> bannedIps (fst (on_messages cfg sp strip s cid (take k ms))) = bannedIps s"
    if "k \<le> length ms" for k
  proof -
    have "\<forall>(sz', p', now', t1') \<in> set (take k ms).
           sz' \<le> 65536 \<and> (\<forall>t \<in> set (messageTimestamps c). now' - t < MESSAGE_WINDOW)"
      using all by (meson in_set_takeD)
    moreover have "violations c + length (take k ms) < MAX_VIOLATIONS"
      using that assms(4) by simp
    ultimately show ?thesis
      using burst_dropped [OF assms(1,2), of "take k ms" cfg sp strip] that by simp
  qed
  define s1 where "s1 = fst (on_messages cfg sp strip s cid ms)"
  let ?c1 = "c\<lparr>violations := violations c + length ms\<rparr>"
  from pre [of "length ms"] have q: "snd (on_messages cfg sp strip s cid ms) = []"
    and l1: "map_of (clients s1) cid = Some ?c1" and b1: "bannedIps s1 = bannedIps s"
    unfolding s1_def by simp_all
  have f: "filter (\<lambda>t. now - t < MESSAGE_WINDOW) (messageTimestamps ?c1) = messageTimestamps ?c1"
    using rec by (intro filter_all_recent) simp
  have "length (filter (\<lambda>t. now - t < MESSAGE_WINDOW) (messageTimestamps ?c1)) \<ge> MESSAGE_RATE_LIMIT"
    unfolding f using assms(2) by simp
  moreover have "violations ?c1 + 1 \<ge> MAX_VIOLATIONS" using assms(4) by simp
  ultimately have m: "on_message cfg sp strip s1 cid sz parsed now t1 =
           ((set_client s1 cid
               (?c1\<lparr>messageTimestamps := filter (\<lambda>t. now - t < MESSAGE_WINDOW) (messageTimestamps ?c1),
                  violations := violations ?c1 + 1, cl_open := False\<rparr>))
              \<lparr>bannedIps := (bannedIps s1)(cl_ip ?c1 \<mapsto> t1 + BAN_DURATION)\<rparr>,
            [Close cid 4429 ''Rate limit exceeded - temporarily banned''])"
    by (intro on_message_banned [OF l1 sz])
  have last: "on_messages cfg sp strip s cid (ms @ [(sz, parsed, now, t1)]) =
          (fst (on_message cfg sp strip s1 cid sz parsed now t1),
           snd (on_message cfg sp strip s1 cid sz parsed now t1))"
    unfolding on_messages_append s1_def [symmetric] q on_messages_Cons by simp
  have "snd (on_messages cfg sp strip s cid (ms @ [(sz, parsed, now, t1)])) =
           [Close cid 4429 ''Rate limit exceeded - temporarily banned'']
       \<and> map_of (clients (fst (on_messages cfg sp strip s cid (ms @ [(sz, parsed, now, t1)])))) cid =
           Some (c\<lparr>violations := MAX_VIOLATIONS, cl_open := False\<rparr>)
       \<and> bannedIps (fst (on_messages cfg sp strip s cid (ms @ [(sz, parsed, now, t1)]))) =
           (bannedIps s)(cl_ip c \<mapsto> t1 + BAN_DURATION)"
    unfolding last m f using l1 b1 assms(4) by (simp add: set_client_lookup)
  with pre show ?thesis by blast
qed

text \<open>
  C8. Let \<open>c\<close> be the fields recorded for a connection, and let a message within
  the size limit arrive while the connection's window of timestamps, pruned to the
  last second, is at the ceiling. If the violation counter stays below the
  threshold, the counter recorded for the connection is incremented, nothing is
  sent or closed, and the session, the detector and the notifier are untouched:
  the message is dropped. If the counter reaches the threshold, the connection is
  closed with code 4429 and its address is banned until the ban duration after the
  clock reading; then every connection attempt from the address before that time
  is rejected with code 4403, whatever its credential, and leaves the server
  unchanged; and an attempt at or after that time, with a valid credential, is
  admitted (the connections recorded for the address were made before the ban).
  In a row of such messages the counter goes up by one with each message, and the
  message that makes it equal to the threshold is the one that closes and bans.
\<close>

theorem C8_rate_limit_escalation:
  assumes "map_of (clients s) cid = Some c"
  shows
    "(sz \<le> 65536 \<and>
      length (filter (\<lambda>t. now - t < MESSAGE_WINDOW) (messageTimestamps c)) \<ge> MESSAGE_RATE_LIMIT \<and>
      violations c + 1 < MAX_VIOLATIONS \<longrightarrow>
        (let s' = fst (on_message cfg sp strip s cid sz parsed now t1)
         in snd (on_message cfg sp strip s cid sz parsed now t1) = []
            \<and> map_of (clients s') cid =
                Some (c\<lparr>messageTimestamps := filter (\<lambda>t. now - t < MESSAGE_WINDOW) (messageTimestamps c),
                        violations := violations c + 1\<rparr>)
            \<and> bannedIps s' = bannedIps s \<and> wsConnections s' = wsConnections s
            \<and> ptyManager s' = ptyManager s \<and> watcher s' = watcher s \<and> notifier s' = notifier s))
     \<and> (sz \<le> 65536 \<and>
      length (filter (\<lambda>t. now - t < MESSAGE_WINDOW) (messageTimestamps c)) \<ge> MESSAGE_RATE_LIMIT \<and>
      violations c + 1 \<ge> MAX_VIOLATIONS \<longrightarrow>
        (let s' = fst (on_message cfg sp strip s cid sz parsed now t1)
         in snd (on_message cfg sp strip s cid sz parsed now t1) =
              [Close cid 4429 ''Rate limit exceeded - temporarily banned'']
            \<and> map_of (clients s') cid =
                Some (c\<lparr>messageTimestamps := filter (\<lambda>t. now - t < MESSAGE_WINDOW) (messageTimestamps c),
                        violations := violations c + 1, cl_open := False\<rparr>)
            \<and> bannedIps s' = (bannedIps s)(cl_ip c \<mapsto> t1 + BAN_DURATION)
            \<and> (\<forall>cid' valid t0 now'. t0 < t1 + BAN_DURATION \<longrightarrow>
                  on_connection s' cid' (cl_ip c) valid t0 now' =
                    (s', [Close cid' 4403 ''Temporarily banned'']))
            \<and> (\<forall>cid' t0 now'.
                  t1 + BAN_DURATION \<le> t0 \<and> t0 \<le> now' \<and>
                  (\<forall>t \<in> set (case wsConnections s (cl_ip c) of None \<Rightarrow> [] | Some ts \<Rightarrow> ts). t \<le> t1) \<longrightarrow>
                  on_connection s' cid' (cl_ip c) True t0 now' =
                    (let s1 = s'\<lparr> wsConnections := (wsConnections s')(cl_ip c \<mapsto> [now']),
                                 clients := clients s' @
                                   [(cid', \<lparr>cl_ip = cl_ip c, violations = 0, messageTimestamps = [],
                                           cl_open = True\<rparr>)] \<rparr>
                     in (s1, [Send cid' (state_msg s1)])))))
     \<and> (length (messageTimestamps c) \<ge> MESSAGE_RATE_LIMIT \<and>
        (\<forall>(sz', p', now', t1') \<in> set (ms @ [(sz, parsed, now, t1)]).
           sz' \<le> 65536 \<and> (\<forall>t \<in> set (messageTimestamps c). now' - t < MESSAGE_WINDOW)) \<and>
        violations c + length ms + 1 = MAX_VIOLATIONS \<longrightarrow>
          (\<forall>k \<le> length ms.
              snd (on_messages cfg sp strip s cid (take k ms)) = []
              \<and> map_of (clients (fst (on_messages cfg sp strip s cid (take k ms)))) cid =
                  Some (c\<lparr>violations := violations c + k\<rparr>)
              \<and> bannedIps (fst (on_messages cfg sp strip s cid (take k ms))) = bannedIps s)
          \<and> snd (on_messages cfg sp strip s cid (ms @ [(sz, parsed, now, t1)])) =
              [Close cid 4429 ''Rate limit exceeded - temporarily banned'']
          \<and> map_of (clients (fst (on_messages cfg sp strip s cid (ms @ [(sz, parsed, now, t1)])))) cid =
              Some (c\<lparr>violations := MAX_VIOLATIONS, cl_open := False\<rparr>)
          \<and> bannedIps (fst (on_messages cfg sp strip s cid (ms @ [(sz, parsed, now, t1)]))) =
              (bannedIps s)(cl_ip c \<mapsto> t1 + BAN_DURATION))"
  using violation_dropped [OF assms, of sz now cfg sp strip parsed t1]
    violation_banned [OF assms, of sz now cfg sp strip parsed t1]
    violations_in_a_row [OF assms, of ms sz parsed now t1 cfg sp strip]
  by blast

theorem C8_rate_limit_escalation_witness:
  "snd (on_message config_default (\<lambda>c a so. Inr 7) (\<lambda>t. t)
          (fst (on_messages config_default (\<lambda>c a so. Inr 7) (\<lambda>t. t)
                  (fst (on_connection server_init 1 ''10.0.0.1'' True 0 0)) 1
                  (replicate 30 (10, None, 1000, 1000)))) 1 10 None 1500 1500) = []
   \<and> map_option violations (map_of (clients (fst (on_message config_default (\<lambda>c a so. Inr 7) (\<lambda>t. t)
          (fst (on_messages config_default (\<lambda>c a so. Inr 7) (\<lambda>t. t)
                  (fst (on_connection server_init 1 ''10.0.0.1'' True 0 0)) 1
                  (replicate 30 (10, None, 1000, 1000)))) 1 10 None 1500 1500))) 1) = Some 1
   \<and> snd (on_messages config_default (\<lambda>c a so. Inr 7) (\<lambda>t. t)
          (fst (on_messages config_default (\<lambda>c a so. Inr 7) (\<lambda>t. t)
                  (fst (on_connection server_init 1 ''10.0.0.1'' True 0 0)) 1
                  (replicate 30 (10, None, 1000, 1000))))
          1 (replicate 4 (10, None, 1500, 1500))) = []
   \<and> map_option violations (map_of (clients (fst (on_messages config_default (\<lambda>c a so. Inr 7) (\<lambda>t. t)
          (fst (on_messages config_default (\<lambda>c a so. Inr 7) (\<lambda>t. t)
                  (fst (on_connection server_init 1 ''10.0.0.1'' True 0 0)) 1
                  (replicate 30 (10, None, 1000, 1000))))
          1 (replicate 4 (10, None, 1500, 1500))))) 1) = Some 4
   \<and> snd (on_messages config_default (\<lambda>c a so. Inr 7) (\<lambda>t. t)
          (fst (on_messages config_default (\<lambda>c a so. Inr 7) (\<lambda>t. t)
                  (fst (on_connection server_init 1 ''10.0.0.1'' True 0 0)) 1
                  (replicate 30 (10, None, 1000, 1000))))
          1 (replicate 4 (10, None, 1500, 1500) @ [(10, None, 1600, 1600)])) =
       [Close 1 4429 ''Rate limit exceeded - temporarily banned'']
   \<and> bannedIps (fst (on_messages config_default (\<lambda>c a so. Inr 7) (\<lambda>t. t)
          (fst (on_messages config_default (\<lambda>c a so. Inr 7) (\<lambda>t. t)
                  (fst (on_connection server_init 1 ''10.0.0.1'' True 0 0)) 1
                  (replicate 30 (10, None, 1000, 1000))))
          1 (replicate 4 (10, None, 1500, 1500) @ [(10, None, 1600, 1600)]))) ''10.0.0.1'' = Some 301600
   \<and> snd (on_connection
          (fst (on_message config_default (\<lambda>c a so. Inr 7) (\<lambda>t. t)
             (fst (on_messages config_default (\<lambda>c a so. Inr 7) (\<lambda>t. t)
                (fst (on_messages config_default (\<lambda>c a so. Inr 7) (\<lambda>t. t)
                        (fst (on_connection server_init 1 ''10.0.0.1'' True 0 0)) 1
                        (replicate 30 (10, None, 1000, 1000))))
                1 (replicate 4 (10, None, 1500, 1500))))
             1 10 None 1600 1600))
          2 ''10.0.0.1'' True 301599 301599) = [Close 2 4403 ''Temporarily banned'']
   \<and> wsConnections (fst (on_connection
          (fst (on_message config_default (\<lambda>c a so. Inr 7) (\<lambda>t. t)
             (fst (on_messages config_default (\<lambda>c a so. Inr 7) (\<lambda>t. t)
                (fst (on_messages config_default (\<lambda>c a so. Inr 7) (\<lambda>t. t)
                        (fst (on_connection server_init 1 ''10.0.0.1'' True 0 0)) 1
                        (replicate 30 (10, None, 1000, 1000))))
                1 (replicate 4 (10, None, 1500, 1500))))
             1 10 None 1600 1600))
          2 ''10.0.0.1'' True 301600 301600)) ''10.0.0.1'' = Some [301600]"
proof -
  define s1 where "s1 = fst (on_connection server_init 1 ''10.0.0.1'' True 0 0)"
  define s30 where "s30 = fst (on_messages config_default (\<lambda>c a so. Inr 7) (\<lambda>t. t) s1 1
                                 (replicate 30 (10, None, 1000, 1000)))"
  define s34 where "s34 = fst (on_messages config_default (\<lambda>c a so. Inr 7) (\<lambda>t. t) s30 1
                                 (replicate 4 (10, None, 1500, 1500)))"
  define s35 where "s35 = fst (on_message config_default (\<lambda>c a so. Inr 7) (\<lambda>t. t) s34 1 10 None 1600 1600)"
  define c0 where "c0 = \<lparr>cl_ip = ''10.0.0.1'', violations = 0, messageTimestamps = [], cl_open = True\<rparr>"
  define c where "c = c0\<lparr>messageTimestamps := replicate 30 1000\<rparr>"
  have l1: "map_of (clients s1) 1 = Some c0" and ws1: "wsConnections s1 ''10.0.0.1'' = Some [0]"
    by (simp_all add: s1_def c0_def on_connection_def server_init_def WS_RATE_LIMIT_def Let_def)
  have "map_of (clients s30) 1 = Some (c0\<lparr>messageTimestamps := messageTimestamps c0 @ replicate 30 1000\<rparr>)
        \<and> bannedIps s30 = bannedIps s1 \<and> wsConnections s30 = wsConnections s1"
    unfolding s30_def
    by (rule burst_accepted [OF l1]) (simp_all add: c0_def MESSAGE_RATE_LIMIT_def)
  then have l30: "map_of (clients s30) 1 = Some c" and ws30: "wsConnections s30 = wsConnections s1"
    by (simp_all add: c_def c0_def)
  have c: "cl_ip c = ''10.0.0.1''" "violations c = 0" "messageTimestamps c = replicate 30 1000"
    by (simp_all add: c_def c0_def)
  have row: "length (messageTimestamps c) \<ge> MESSAGE_RATE_LIMIT \<and>
        (\<forall>(sz', p', now', t1') \<in> set (replicate 4 (10 :: nat, None :: client_msg option, 1500 :: int, 1500 :: int)
                                        @ [(10, None, 1600, 1600)]).
           sz' \<le> 65536 \<and> (\<forall>t \<in> set (messageTimestamps c). now' - t < MESSAGE_WINDOW)) \<and>
        violations c + length (replicate 4 (10 :: nat, None :: client_msg option, 1500 :: int, 1500 :: int)) + 1
          = MAX_VIOLATIONS"
    by (simp add: c MESSAGE_RATE_LIMIT_def MESSAGE_WINDOW_def MAX_VIOLATIONS_def)
  note th30 = C8_rate_limit_escalation [OF l30, where ms = "replicate 4 (10, None, 1500, 1500)"
      and sz = 10 and parsed = None and now = 1600 and ?t1.0 = 1600 and cfg = config_default
      and sp = "\<lambda>c a so. Inr 7" and strip = "\<lambda>t. t", THEN conjunct2, THEN conjunct2, rule_format, OF row]
  from th30 have pre: "snd (on_messages config_default (\<lambda>c a so. Inr 7) (\<lambda>t. t) s30 1
                              (take 4 (replicate 4 (10, None, 1500, 1500)))) = []
      \<and> map_of (clients (fst (on_messages config_default (\<lambda>c a so. Inr 7) (\<lambda>t. t) s30 1
                              (take 4 (replicate 4 (10, None, 1500, 1500)))))) 1 =
          Some (c\<lparr>violations := violations c + 4\<rparr>)"
    by simp
  then have a: "snd (on_messages config_default (\<lambda>c a so. Inr 7) (\<lambda>t. t) s30 1
                       (replicate 4 (10, None, 1500, 1500))) = []"
    and l34: "map_of (clients s34) 1 = Some (c\<lparr>violations := 4\<rparr>)"
    by (simp_all add: s34_def c)
  from th30 have b: "snd (on_messages config_default (\<lambda>c a so. Inr 7) (\<lambda>t. t) s30 1
            (replicate 4 (10, None, 1500, 1500) @ [(10, None, 1600, 1600)])) =
          [Close 1 4429 ''Rate limit exceeded - temporarily banned'']"
    and "bannedIps (fst (on_messages config_default (\<lambda>c a so. Inr 7) (\<lambda>t. t) s30 1
            (replicate 4 (10, None, 1500, 1500) @ [(10, None, 1600, 1600)]))) =
          (bannedIps s30)(cl_ip c \<mapsto> 1600 + BAN_DURATION)"
    by blast+
  then have d: "bannedIps (fst (on_messages config_default (\<lambda>c a so. Inr 7) (\<lambda>t. t) s30 1
            (replicate 4 (10, None, 1500, 1500) @ [(10, None, 1600, 1600)]))) ''10.0.0.1'' = Some 301600"
    by (simp add: c BAN_DURATION_def)
  have ws34: "wsConnections s34 = wsConnections s30"
    unfolding s34_def
    using burst_dropped [OF l30, of "replicate 4 (10, None, 1500, 1500)" config_default
        "\<lambda>c a so. Inr 7" "\<lambda>t. t"]
    by (simp add: c MESSAGE_RATE_LIMIT_def MESSAGE_WINDOW_def MAX_VIOLATIONS_def)
  have ban: "(10 :: nat) \<le> 65536 \<and>
      length (filter (\<lambda>t. 1600 - t < MESSAGE_WINDOW) (messageTimestamps (c\<lparr>violations := 4\<rparr>)))
        \<ge> MESSAGE_RATE_LIMIT \<and>
      violations (c\<lparr>violations := 4\<rparr>) + 1 \<ge> MAX_VIOLATIONS"
    by (simp add: c MESSAGE_RATE_LIMIT_def MESSAGE_WINDOW_def MAX_VIOLATIONS_def)
  note th34 = C8_rate_limit_escalation [OF l34, where sz = 10 and parsed = None and now = 1600
      and ?t1.0 = 1600 and cfg = config_default and sp = "\<lambda>c a so. Inr 7" and strip = "\<lambda>t. t",
      THEN conjunct2, THEN conjunct1, rule_format, OF ban, unfolded Let_def, folded s35_def]
  have "(301599 :: int) < 1600 + BAN_DURATION" by (simp add: BAN_DURATION_def)
  with th34 have "on_connection s35 2 (cl_ip (c\<lparr>violations := 4\<rparr>)) True 301599 301599 =
                    (s35, [Close 2 4403 ''Temporarily banned''])"
    by blast
  then have e: "snd (on_connection s35 2 ''10.0.0.1'' True 301599 301599) =
                  [Close 2 4403 ''Temporarily banned'']"
    by (simp add: c)
  have "1600 + BAN_DURATION \<le> (301600 :: int) \<and> (301600 :: int) \<le> 301600 \<and>
        (\<forall>t \<in> set (case wsConnections s34 (cl_ip (c\<lparr>violations := 4\<rparr>)) of None \<Rightarrow> [] | Some ts \<Rightarrow> ts).
           t \<le> 1600)"
    by (simp add: BAN_DURATION_def ws34 ws30 ws1 c)
  with th34 have "on_connection s35 2 (cl_ip (c\<lparr>violations := 4\<rparr>)) True 301600 301600 =
       (s35\<lparr> wsConnections := (wsConnections s35)(cl_ip (c\<lparr>violations := 4\<rparr>) \<mapsto> [301600]),
            clients := clients s35 @
              [(2, \<lparr>cl_ip = cl_ip (c\<lparr>violations := 4\<rparr>), violations = 0, messageTimestamps = [],
                     cl_open = True\<rparr>)] \<rparr>,
        [Send 2 (state_msg (s35\<lparr> wsConnections := (wsConnections s35)(cl_ip (c\<lparr>violations := 4\<rparr>) \<mapsto> [301600]),
            clients := clients s35 @
              [(2, \<lparr>cl_ip = cl_ip (c\<lparr>violations := 4\<rparr>), violations = 0, messageTimestamps = [],
                     cl_open = True\<rparr>)] \<rparr>))])"
    by blast
  then have f: "wsConnections (fst (on_connection s35 2 ''10.0.0.1'' True 301600 301600)) ''10.0.0.1'' =
                  Some [301600]"
    by (simp add: c)
  have g: "map_option violations (map_of (clients s34) 1) = Some 4"
    unfolding l34 by simp
  have one: "(10 :: nat) \<le> 65536 \<and>
      length (filter (\<lambda>t. 1500 - t < MESSAGE_WINDOW) (messageTimestamps c)) \<ge> MESSAGE_RATE_LIMIT \<and>
      violations c + 1 < MAX_VIOLATIONS"
    by (simp add: c MESSAGE_RATE_LIMIT_def MESSAGE_WINDOW_def MAX_VIOLATIONS_def)
  note th1 = C8_rate_limit_escalation [OF l30, where sz = 10 and parsed = None and now = 1500
      and ?t1.0 = 1500 and cfg = config_default and sp = "\<lambda>c a so. Inr 7" and strip = "\<lambda>t. t",
      THEN conjunct1, rule_format, OF one, unfolded Let_def]
  from th1 have h: "snd (on_message config_default (\<lambda>c a so. Inr 7) (\<lambda>t. t) s30 1 10 None 1500 1500) = []
      \<and> map_option violations (map_of (clients (fst (on_message config_default (\<lambda>c a so. Inr 7)
            (\<lambda>t. t) s30 1 10 None 1500 1500))) 1) = Some 1"
    by (simp add: c)
  have "snd (on_message config_default (\<lambda>c a so. Inr 7) (\<lambda>t. t) s30 1 10 None 1500 1500) = []
      \<and> map_option violations (map_of (clients (fst (on_message config_default (\<lambda>c a so. Inr 7)
            (\<lambda>t. t) s30 1 10 None 1500 1500))) 1) = Some 1
      \<and> snd (on_messages config_default (\<lambda>c a so. Inr 7) (\<lambda>t. t) s30 1
               (replicate 4 (10, None, 1500, 1500))) = []
      \<and> map_option violations (map_of (clients s34) 1) = Some 4
      \<and> snd (on_messages config_default (\<lambda>c a so. Inr 7) (\<lambda>t. t) s30 1
            (replicate 4 (10, None, 1500, 1500) @ [(10, None, 1600, 1600)])) =
          [Close 1 4429 ''Rate limit exceeded - temporarily banned'']
      \<and> bannedIps (fst (on_messages config_default (\<lambda>c a so. Inr 7) (\<lambda>t. t) s30 1
            (replicate 4 (10, None, 1500, 1500) @ [(10, None, 1600, 1600)]))) ''10.0.0.1'' = Some 301600
      \<and> snd (on_connection s35 2 ''10.0.0.1'' True 301599 301599) = [Close 2 4403 ''Temporarily banned'']
      \<and> wsConnections (fst (on_connection s35 2 ''10.0.0.1'' True 301600 301600)) ''10.0.0.1'' =
          Some [301600]"
    using a b d e f g h by blast
  then show ?thesis unfolding s35_def s34_def s30_def s1_def .
qed

section \<open>When a held trigger is cleared\<close>

lemma subprocess_exit_eq:
  "subprocess_exit s code sig =
     (s\<lparr>ptyManager := (ptyManager s)\<lparr>running := False, exitCode := Some code\<rparr>, themeSent := False\<rparr>,
      [Broadcast (MsgExit code sig) (map fst (filter (\<lambda>(i, c). cl_open c) (clients s)))])"
  by (simp add: subprocess_exit_def on_pty_exit_def onExit_def Let_def broadcast_def)

lemma watcher_subprocess_data:
  "watcher (fst (subprocess_data enc strip now s d mr)) = fst (snd (process strip now (watcher s) d))"
  by (auto simp: subprocess_data_def on_pty_data_def broadcastOutput_def onData_def Let_def
      split: prod.splits sum.splits)

lemma subprocess_data_keeps:
  "clients (fst (subprocess_data enc strip now s d mr)) = clients s"
  "notifier (fst (subprocess_data enc strip now s d mr)) = notifier s"
  "running (ptyManager (fst (subprocess_data enc strip now s d mr))) = running (ptyManager s)"
  "pty (ptyManager (fst (subprocess_data enc strip now s d mr))) = pty (ptyManager s)"
  by (auto simp: subprocess_data_def on_pty_data_def broadcastOutput_def onData_def Let_def
      appendToBuffer_def split: prod.splits sum.splits)

lemma startClaude_watcher:
  "\<not> running (ptyManager s) \<Longrightarrow>
     watcher (fst (startClaude cfg sp s args dir)) =
       (watcher s)\<lparr>lines := [], lastTrigger := None, lastTriggerTime := 0\<rparr>"
  by (simp add: startClaude_def isRunning_def Let_def spawn_def reset_def split: sum.splits prod.splits)

lemma input_while_running:
  assumes "running (ptyManager s)" and "pty (ptyManager s) \<noteq> None"
    and "\<not> (mockMode cfg \<and> mockInputHandler s)"
  shows "handleClientMessage cfg sp strip now s cid (Input d) =
        (if CHR 0x0D \<in> set d
         then (s\<lparr>watcher := (watcher s)\<lparr>lines := [], lastTrigger := None, lastTriggerTime := 0\<rparr>,
                 notifier := (notifier s)\<lparr>lastNotificationHash := None, lastNotificationTime := 0\<rparr>\<rparr>,
               [Pty (PtyWrite d),
                Broadcast MsgHideOptions (map fst (filter (\<lambda>(i, c). cl_open c) (clients s)))])
         else (s\<lparr>notifier := (notifier s)\<lparr>lastNotificationHash := None, lastNotificationTime := 0\<rparr>\<rparr>,
               [Pty (PtyWrite d)]))"
  using assms
  by (auto simp: handleClientMessage_def originalHandleClientMessage_def isRunning_def
      write_pty_def Let_def broadcast_def reset_def resetDebounce_def)

lemma input_while_idle:
  assumes "\<not> running (ptyManager s)" and "\<not> (mockMode cfg \<and> mockInputHandler s)"
  shows "handleClientMessage cfg sp strip now s cid (Input d) = (s, [])"
  using assms
  by (auto simp: handleClientMessage_def originalHandleClientMessage_def isRunning_def)

text \<open>
  C9 as stated fails: a session is started, the subprocess prints
  \<open>Proceed? (y/n)\<close>, so that the detector holds a trigger, and the subprocess
  exits. After the exit the session is not running and the detector still holds
  the trigger, which a state snapshot still reports.
\<close>

theorem C9_exit_keeps_held_trigger:
  "lastTrigger (watcher (fst (subprocess_exit
       (fst (subprocess_data ascii_enc (\<lambda>t. t) 5
          (fst (startClaude config_default (\<lambda>c a so. Inr 7) server_init [] (Inr ''/workspace'')))
          ''Proceed? (y/n)'' False))
       0 None))) = Some (hashPrompt ''Select option:'')
   \<and> \<not> running (ptyManager (fst (subprocess_exit
       (fst (subprocess_data ascii_enc (\<lambda>t. t) 5
          (fst (startClaude config_default (\<lambda>c a so. Inr 7) server_init [] (Inr ''/workspace'')))
          ''Proceed? (y/n)'' False))
       0 None)))
   \<and> getLastTrigger (watcher (fst (subprocess_exit
       (fst (subprocess_data ascii_enc (\<lambda>t. t) 5
          (fst (startClaude config_default (\<lambda>c a so. Inr 7) server_init [] (Inr ''/workspace'')))
          ''Proceed? (y/n)'' False))
       0 None))) =
     Some \<lparr>lt_prompt = ''Select option:'',
           lt_options = [\<lparr>label = ''Yes'', val = ''y''\<rparr>, \<lparr>label = ''No'', val = ''n''\<rparr>],
           lt_patternName = ''yes-no'', lt_detectedAt = 5\<rparr>"
proof -
  define s1 where "s1 = fst (startClaude config_default (\<lambda>c a so. Inr 7) server_init [] (Inr ''/workspace''))"
  define s2 where "s2 = fst (subprocess_data ascii_enc (\<lambda>t. t) 5 s1 ''Proceed? (y/n)'' False)"
  define s3 where "s3 = fst (subprocess_exit s2 0 None)"
  have "\<not> running (ptyManager server_init)"
    by (simp add: server_init_def PTYManager_new_def)
  then have w1: "watcher s1 = Watcher_new None"
    unfolding s1_def by (simp add: startClaude_watcher) (simp add: server_init_def Watcher_new_def)
  have w2: "watcher s2 = (Watcher_new None)\<lparr>lines := [''Proceed? (y/n)''],
              lastTrigger := Some (hashPrompt ''Select option:''), lastTriggerTime := 5\<rparr>"
    unfolding s2_def watcher_subprocess_data w1 using process_yes_no [of 5] by simp
  have w3: "watcher s3 = watcher s2"
    unfolding s3_def subprocess_exit_eq by simp
  have r3: "\<not> running (ptyManager s3)"
    unfolding s3_def subprocess_exit_eq by simp
  have g: "getLastTrigger (watcher s3) =
     Some \<lparr>lt_prompt = ''Select option:'',
           lt_options = [\<lparr>label = ''Yes'', val = ''y''\<rparr>, \<lparr>label = ''No'', val = ''n''\<rparr>],
           lt_patternName = ''yes-no'', lt_detectedAt = 5\<rparr>"
    unfolding w3 w2 using parse_yes_no by (simp add: getLastTrigger_def)
  have "lastTrigger (watcher s3) = Some (hashPrompt ''Select option:'')
        \<and> \<not> running (ptyManager s3)
        \<and> getLastTrigger (watcher s3) =
     Some \<lparr>lt_prompt = ''Select option:'',
           lt_options = [\<lparr>label = ''Yes'', val = ''y''\<rparr>, \<lparr>label = ''No'', val = ''n''\<rparr>],
           lt_patternName = ''yes-no'', lt_detectedAt = 5\<rparr>"
    using r3 g by (simp add: w3 w2)
  then show ?thesis unfolding s3_def s2_def s1_def .
qed

text \<open>
  C9 as the code has it. While the session runs (outside the scripted mock
  input), an input message whose data contains a carriage return is written to the
  subprocess, leaves the detector with no held trigger and an empty window,
  broadcasts \<open>hideOptions\<close> to the open connections and clears the debounce memory
  (no last hash, time 0); an input without carriage return is written and clears
  the debounce memory only; an input while no session runs does nothing. The
  subprocess exiting changes neither the detector nor the debounce memory: it
  clears the running flag, records the exit code and broadcasts the exit. The
  detector is cleared again when the next start request is accepted.
\<close>

theorem C9_trigger_cleared_on_submit_and_start:
  "(running (ptyManager s) \<and> pty (ptyManager s) \<noteq> None \<and> \<not> (mockMode cfg \<and> mockInputHandler s) \<longrightarrow>
      handleClientMessage cfg sp strip now s cid (Input d) =
        (if CHR 0x0D \<in> set d
         then (s\<lparr>watcher := (watcher s)\<lparr>lines := [], lastTrigger := None, lastTriggerTime := 0\<rparr>,
                 notifier := (notifier s)\<lparr>lastNotificationHash := None, lastNotificationTime := 0\<rparr>\<rparr>,
               [Pty (PtyWrite d),
                Broadcast MsgHideOptions (map fst (filter (\<lambda>(i, c). cl_open c) (clients s)))])
         else (s\<lparr>notifier := (notifier s)\<lparr>lastNotificationHash := None, lastNotificationTime := 0\<rparr>\<rparr>,
               [Pty (PtyWrite d)])))
   \<and> (\<not> running (ptyManager s) \<and> \<not> (mockMode cfg \<and> mockInputHandler s) \<longrightarrow>
      handleClientMessage cfg sp strip now s cid (Input d) = (s, []))
   \<and> getLastTrigger ((watcher s)\<lparr>lines := [], lastTrigger := None, lastTriggerTime := 0\<rparr>) = None
   \<and> subprocess_exit s code sig =
        (s\<lparr>ptyManager := (ptyManager s)\<lparr>running := False, exitCode := Some code\<rparr>, themeSent := False\<rparr>,
         [Broadcast (MsgExit code sig) (map fst (filter (\<lambda>(i, c). cl_open c) (clients s)))])
   \<and> watcher (fst (subprocess_exit s code sig)) = watcher s
   \<and> notifier (fst (subprocess_exit s code sig)) = notifier s
   \<and> (\<not> running (ptyManager s) \<longrightarrow>
        watcher (fst (startClaude cfg sp s args dir)) =
          (watcher s)\<lparr>lines := [], lastTrigger := None, lastTriggerTime := 0\<rparr>)"
  using input_while_running [of s cfg sp strip now cid d] input_while_idle [of s cfg sp strip now cid d]
    startClaude_watcher [of s cfg sp args dir]
  by (simp add: subprocess_exit_eq getLastTrigger_def)

theorem C9_trigger_cleared_on_submit_and_start_witness:
  "lastTrigger (watcher (trigger_notified (fst (subprocess_data ascii_enc (\<lambda>t. t) 5 (fst (startClaude config_default (\<lambda>c a so. Inr 7) (fst (on_connection server_init 1 ''10.0.0.1'' True 0 0)) [] (Inr ''/workspace''))) ''Proceed? (y/n)'' False)) \<lparr>prompt = ''Select option:'', options = [\<lparr>label = ''Yes'', val = ''y''\<rparr>, \<lparr>label = ''No'', val = ''n''\<rparr>], patternName = ''yes-no''\<rparr> 6 ResponseOk)) = Some (hashPrompt ''Select option:'')
   \<and> lastNotificationHash (notifier (trigger_notified (fst (subprocess_data ascii_enc (\<lambda>t. t) 5 (fst (startClaude config_default (\<lambda>c a so. Inr 7) (fst (on_connection server_init 1 ''10.0.0.1'' True 0 0)) [] (Inr ''/workspace''))) ''Proceed? (y/n)'' False)) \<lparr>prompt = ''Select option:'', options = [\<lparr>label = ''Yes'', val = ''y''\<rparr>, \<lparr>label = ''No'', val = ''n''\<rparr>], patternName = ''yes-no''\<rparr> 6 ResponseOk)) = Some (hashString ''Select option:'')
   \<and> lastNotificationTime (notifier (trigger_notified (fst (subprocess_data ascii_enc (\<lambda>t. t) 5 (fst (startClaude config_default (\<lambda>c a so. Inr 7) (fst (on_connection server_init 1 ''10.0.0.1'' True 0 0)) [] (Inr ''/workspace''))) ''Proceed? (y/n)'' False)) \<lparr>prompt = ''Select option:'', options = [\<lparr>label = ''Yes'', val = ''y''\<rparr>, \<lparr>label = ''No'', val = ''n''\<rparr>], patternName = ''yes-no''\<rparr> 6 ResponseOk)) = 6
   \<and> snd (handleClientMessage config_default (\<lambda>c a so. Inr 8) (\<lambda>t. t) 9 (trigger_notified (fst (subprocess_data ascii_enc (\<lambda>t. t) 5 (fst (startClaude config_default (\<lambda>c a so. Inr 7) (fst (on_connection server_init 1 ''10.0.0.1'' True 0 0)) [] (Inr ''/workspace''))) ''Proceed? (y/n)'' False)) \<lparr>prompt = ''Select option:'', options = [\<lparr>label = ''Yes'', val = ''y''\<rparr>, \<lparr>label = ''No'', val = ''n''\<rparr>], patternName = ''yes-no''\<rparr> 6 ResponseOk) 1 (Input (''y'' @ [CHR 0x0D]))) =
       [Pty (PtyWrite (''y'' @ [CHR 0x0D])), Broadcast MsgHideOptions [1]]
   \<and> lastTrigger (watcher (fst (handleClientMessage config_default (\<lambda>c a so. Inr 8) (\<lambda>t. t) 9 (trigger_notified (fst (subprocess_data ascii_enc (\<lambda>t. t) 5 (fst (startClaude config_default (\<lambda>c a so. Inr 7) (fst (on_connection server_init 1 ''10.0.0.1'' True 0 0)) [] (Inr ''/workspace''))) ''Proceed? (y/n)'' False)) \<lparr>prompt = ''Select option:'', options = [\<lparr>label = ''Yes'', val = ''y''\<rparr>, \<lparr>label = ''No'', val = ''n''\<rparr>], patternName = ''yes-no''\<rparr> 6 ResponseOk) 1 (Input (''y'' @ [CHR 0x0D]))))) = None
   \<and> lines (watcher (fst (handleClientMessage config_default (\<lambda>c a so. Inr 8) (\<lambda>t. t) 9 (trigger_notified (fst (subprocess_data ascii_enc (\<lambda>t. t) 5 (fst (startClaude config_default (\<lambda>c a so. Inr 7) (fst (on_connection server_init 1 ''10.0.0.1'' True 0 0)) [] (Inr ''/workspace''))) ''Proceed? (y/n)'' False)) \<lparr>prompt = ''Select option:'', options = [\<lparr>label = ''Yes'', val = ''y''\<rparr>, \<lparr>label = ''No'', val = ''n''\<rparr>], patternName = ''yes-no''\<rparr> 6 ResponseOk) 1 (Input (''y'' @ [CHR 0x0D]))))) = []
   \<and> lastNotificationHash (notifier (fst (handleClientMessage config_default (\<lambda>c a so. Inr 8) (\<lambda>t. t) 9 (trigger_notified (fst (subprocess_data ascii_enc (\<lambda>t. t) 5 (fst (startClaude config_default (\<lambda>c a so. Inr 7) (fst (on_connection server_init 1 ''10.0.0.1'' True 0 0)) [] (Inr ''/workspace''))) ''Proceed? (y/n)'' False)) \<lparr>prompt = ''Select option:'', options = [\<lparr>label = ''Yes'', val = ''y''\<rparr>, \<lparr>label = ''No'', val = ''n''\<rparr>], patternName = ''yes-no''\<rparr> 6 ResponseOk) 1 (Input (''y'' @ [CHR 0x0D]))))) = None
   \<and> lastNotificationTime (notifier (fst (handleClientMessage config_default (\<lambda>c a so. Inr 8) (\<lambda>t. t) 9 (trigger_notified (fst (subprocess_data ascii_enc (\<lambda>t. t) 5 (fst (startClaude config_default (\<lambda>c a so. Inr 7) (fst (on_connection server_init 1 ''10.0.0.1'' True 0 0)) [] (Inr ''/workspace''))) ''Proceed? (y/n)'' False)) \<lparr>prompt = ''Select option:'', options = [\<lparr>label = ''Yes'', val = ''y''\<rparr>, \<lparr>label = ''No'', val = ''n''\<rparr>], patternName = ''yes-no''\<rparr> 6 ResponseOk) 1 (Input (''y'' @ [CHR 0x0D]))))) = 0
   \<and> handleClientMessage config_default (\<lambda>c a so. Inr 8) (\<lambda>t. t) 9 server_init 1 (Input (''y'' @ [CHR 0x0D])) = (server_init, [])
   \<and> lastTrigger (watcher (fst (startClaude config_default (\<lambda>c a so. Inr 8)
         (fst (subprocess_exit (trigger_notified (fst (subprocess_data ascii_enc (\<lambda>t. t) 5 (fst (startClaude config_default (\<lambda>c a so. Inr 7) (fst (on_connection server_init 1 ''10.0.0.1'' True 0 0)) [] (Inr ''/workspace''))) ''Proceed? (y/n)'' False)) \<lparr>prompt = ''Select option:'', options = [\<lparr>label = ''Yes'', val = ''y''\<rparr>, \<lparr>label = ''No'', val = ''n''\<rparr>], patternName = ''yes-no''\<rparr> 6 ResponseOk) 0 None)) [] (Inr ''/workspace'')))) = None"
proof -
  define s1 where "s1 = fst (on_connection server_init 1 ''10.0.0.1'' True 0 0)"
  define s2 where "s2 = fst (startClaude config_default (\<lambda>c a so. Inr 7) s1 [] (Inr ''/workspace''))"
  define s3 where "s3 = fst (subprocess_data ascii_enc (\<lambda>t. t) 5 s2 ''Proceed? (y/n)'' False)"
  define s4 where "s4 = trigger_notified s3 \<lparr>prompt = ''Select option:'', options = [\<lparr>label = ''Yes'', val = ''y''\<rparr>, \<lparr>label = ''No'', val = ''n''\<rparr>], patternName = ''yes-no''\<rparr> 6 ResponseOk"
  define s6 where "s6 = fst (subprocess_exit s4 0 None)"
  have c1: "clients s1 = [(1, \<lparr>cl_ip = ''10.0.0.1'', violations = 0, messageTimestamps = [], cl_open = True\<rparr>)]"
    and r1: "\<not> running (ptyManager s1)"
    and w1: "watcher s1 = Watcher_new None"
    and n1: "notifier s1 = Notifier_new (Some ''claude-alerts'') None"
    by (simp_all add: s1_def on_connection_def server_init_def WS_RATE_LIMIT_def Let_def
        PTYManager_new_def)
  have r2: "running (ptyManager s2)" "pty (ptyManager s2) \<noteq> None"
    and c2: "clients s2 = clients s1" and n2: "notifier s2 = notifier s1"
    using r1 by (simp_all add: s2_def startClaude_def spawn_def isRunning_def config_default_def Let_def)
  have w2: "watcher s2 = Watcher_new None"
    unfolding s2_def using r1 by (simp add: startClaude_watcher w1) (simp add: Watcher_new_def)
  have w3: "watcher s3 = (Watcher_new None)\<lparr>lines := [''Proceed? (y/n)''],
              lastTrigger := Some (hashPrompt ''Select option:''), lastTriggerTime := 5\<rparr>"
    unfolding s3_def watcher_subprocess_data w2 using process_yes_no [of 5] by simp
  have k3: "clients s3 = clients s1" "notifier s3 = notifier s1"
    "running (ptyManager s3)" "pty (ptyManager s3) \<noteq> None"
    unfolding s3_def subprocess_data_keeps using r2 c2 n2 by simp_all
  have n4: "notifier s4 = (notifier s1)\<lparr>lastNotificationHash := Some (hashString ''Select option:''),
                                         lastNotificationTime := 6\<rparr>"
    by (simp add: s4_def trigger_notified_def k3 n1 notify_begin_def notify_end_def Notifier_new_def Let_def)
  have k4: "watcher s4 = watcher s3" "clients s4 = clients s1"
    "running (ptyManager s4)" "pty (ptyManager s4) \<noteq> None" "\<not> (mockMode config_default \<and> mockInputHandler s4)"
    using k3 by (simp_all add: s4_def trigger_notified_def config_default_def)
  have before: "lastTrigger (watcher s4) = Some (hashPrompt ''Select option:'')
      \<and> lastNotificationHash (notifier s4) = Some (hashString ''Select option:'')
      \<and> lastNotificationTime (notifier s4) = 6"
    by (simp add: k4 w3 n4)
  have cr: "CHR 0x0D \<in> set (''y'' @ [CHR 0x0D])" by simp
  have "handleClientMessage config_default (\<lambda>c a so. Inr 8) (\<lambda>t. t) 9 s4 1 (Input (''y'' @ [CHR 0x0D])) =
        (s4\<lparr>watcher := (watcher s4)\<lparr>lines := [], lastTrigger := None, lastTriggerTime := 0\<rparr>,
            notifier := (notifier s4)\<lparr>lastNotificationHash := None, lastNotificationTime := 0\<rparr>\<rparr>,
         [Pty (PtyWrite (''y'' @ [CHR 0x0D])),
          Broadcast MsgHideOptions (map fst (filter (\<lambda>(i, c). cl_open c) (clients s4)))])"
    using k4(3,4,5) cr
      C9_trigger_cleared_on_submit_and_start [of s4 config_default "\<lambda>c a so. Inr 8" "\<lambda>t. t" 9 1
        "''y'' @ [CHR 0x0D]"]
    by presburger
  then have after: "snd (handleClientMessage config_default (\<lambda>c a so. Inr 8) (\<lambda>t. t) 9 s4 1 (Input (''y'' @ [CHR 0x0D]))) =
         [Pty (PtyWrite (''y'' @ [CHR 0x0D])), Broadcast MsgHideOptions [1]]
      \<and> lastTrigger (watcher (fst (handleClientMessage config_default (\<lambda>c a so. Inr 8) (\<lambda>t. t) 9 s4 1 (Input (''y'' @ [CHR 0x0D]))))) = None
      \<and> lines (watcher (fst (handleClientMessage config_default (\<lambda>c a so. Inr 8) (\<lambda>t. t) 9 s4 1 (Input (''y'' @ [CHR 0x0D]))))) = []
      \<and> lastNotificationHash (notifier (fst (handleClientMessage config_default (\<lambda>c a so. Inr 8) (\<lambda>t. t) 9 s4 1 (Input (''y'' @ [CHR 0x0D]))))) = None
      \<and> lastNotificationTime (notifier (fst (handleClientMessage config_default (\<lambda>c a so. Inr 8) (\<lambda>t. t) 9 s4 1 (Input (''y'' @ [CHR 0x0D]))))) = 0"
    by (simp add: k4 c1)
  have "\<not> running (ptyManager server_init) \<and> \<not> (mockMode config_default \<and> mockInputHandler server_init)"
    by (simp add: server_init_def PTYManager_new_def config_default_def)
  then have idle: "handleClientMessage config_default (\<lambda>c a so. Inr 8) (\<lambda>t. t) 9 server_init 1 (Input (''y'' @ [CHR 0x0D])) = (server_init, [])"
    using C9_trigger_cleared_on_submit_and_start [of server_init config_default "\<lambda>c a so. Inr 8"
        "\<lambda>t. t" 9 1 "''y'' @ [CHR 0x0D]"]
    by blast
  have r6: "\<not> running (ptyManager s6)" and w6: "watcher s6 = watcher s4"
    unfolding s6_def subprocess_exit_eq by simp_all
  have "watcher (fst (startClaude config_default (\<lambda>c a so. Inr 8) s6 [] (Inr ''/workspace''))) =
          (watcher s6)\<lparr>lines := [], lastTrigger := None, lastTriggerTime := 0\<rparr>"
    using r6 C9_trigger_cleared_on_submit_and_start [of s6 config_default "\<lambda>c a so. Inr 8" _ _ _ _ _ _
        "[]" "Inr ''/workspace''"]
    by blast
  then have start: "lastTrigger (watcher (fst (startClaude config_default (\<lambda>c a so. Inr 8) s6 []
                        (Inr ''/workspace'')))) = None"
    by simp
  have "lastTrigger (watcher s4) = Some (hashPrompt ''Select option:'')
   \<and> lastNotificationHash (notifier s4) = Some (hashString ''Select option:'')
   \<and> lastNotificationTime (notifier s4) = 6
   \<and> snd (handleClientMessage config_default (\<lambda>c a so. Inr 8) (\<lambda>t. t) 9 s4 1 (Input (''y'' @ [CHR 0x0D]))) =
       [Pty (PtyWrite (''y'' @ [CHR 0x0D])), Broadcast MsgHideOptions [1]]
   \<and> lastTrigger (watcher (fst (handleClientMessage config_default (\<lambda>c a so. Inr 8) (\<lambda>t. t) 9 s4 1 (Input (''y'' @ [CHR 0x0D]))))) = None
   \<and> lines (watcher (fst (handleClientMessage config_default (\<lambda>c a so. Inr 8) (\<lambda>t. t) 9 s4 1 (Input (''y'' @ [CHR 0x0D]))))) = []
   \<and> lastNotificationHash (notifier (fst (handleClientMessage config_default (\<lambda>c a so. Inr 8) (\<lambda>t. t) 9 s4 1 (Input (''y'' @ [CHR 0x0D]))))) = None
   \<and> lastNotificationTime (notifier (fst (handleClientMessage config_default (\<lambda>c a so. Inr 8) (\<lambda>t. t) 9 s4 1 (Input (''y'' @ [CHR 0x0D]))))) = 0
   \<and> handleClientMessage config_default (\<lambda>c a so. Inr 8) (\<lambda>t. t) 9 server_init 1 (Input (''y'' @ [CHR 0x0D])) = (server_init, [])
   \<and> lastTrigger (watcher (fst (startClaude config_default (\<lambda>c a so. Inr 8)
         s6 [] (Inr ''/workspace'')))) = None"
    using before after idle start by blast
  then show ?thesis unfolding s6_def s4_def s3_def s2_def s1_def .
qed

end
